theory Spec2Isabelle
  imports Main
begin

section \<open>Keyboard-driven ODrive motor control: a shallow embedding\<close>

text \<open>
  The repository holds three Python scripts:
  \<^item> \<^verbatim>\<open>py_keycontroltest.py\<close>: hold-to-move key sampling with simulated (printed) motor
    actions; definitions prefixed \<open>kc_\<close>;
  \<^item> \<^verbatim>\<open>py_twomotortest.py\<close>: hold-to-move key sampling driving two ODrive axes;
    definitions prefixed \<open>tm_\<close>;
  \<^item> \<^verbatim>\<open>py_onewheeltest.py\<close>: line-oriented control of one ODrive axis; definitions
    prefixed \<open>ow_\<close>.
  The scripts share function names (\<open>getch_non_blocking\<close>, \<open>key_monitor_thread\<close>,
  \<open>signal_handler\<close>, \<open>stop_motor\<close>, \<open>main\<close>), hence the prefixes.

  Every Python function becomes a function from the world (the process globals, the
  terminal, the ODrive axes and the observable trace) to a result and a new world. The
  result is either a raised exception or a value. \<open>time.sleep\<close> is not modelled, and
  stdin is taken to be a terminal, so that the calls of \<open>termios\<close> and \<open>tty\<close> succeed.
\<close>

subsection \<open>Exceptions, terminal, axes, world\<close>

text \<open>
  The Python exceptions that occur: every subclass of \<open>Exception\<close> is \<open>Exception msg\<close>
  (with \<open>str(e) = msg\<close>); \<open>KeyboardInterrupt\<close> and \<open>SystemExit\<close> derive from
  \<open>BaseException\<close> only, so that \<open>except Exception\<close> does not catch them.
\<close>

datatype exn = Exception string | KeyboardInterrupt | SystemExit int

text \<open>
  The terminal attributes that \<open>termios.tcgetattr\<close> reads and \<open>termios.tcsetattr\<close>
  writes, reduced to the local and output flags that \<open>tty.setraw\<close> of the Python
  standard library clears.
\<close>

record termios_attr =
  echo :: bool
  icanon :: bool
  isig :: bool
  opost :: bool

text \<open>The calls made on the terminal device, in program order.\<close>

datatype tty_call =
  Tcgetattr
  | Setraw
  | Select
  | Read
  | Tcsetattr termios_attr

text \<open>
  An ODrive axis object: \<open>input_vel\<close> is \<open>axis.controller.input_vel\<close>; \<open>fault\<close> is the
  state of the link to the device: with \<open>Some msg\<close> an attribute write raises
  \<open>Exception(msg)\<close>.
\<close>

record axis =
  input_vel :: int
  fault :: "string option"

text \<open>The two axis objects \<open>odrv.axis0\<close> and \<open>odrv.axis1\<close> are referred to by handle.\<close>

datatype axis_ref = Axis0 | Axis1

text \<open>
  The observable trace: console lines (\<open>print\<close>) and attempted writes of
  \<open>axis.controller.input_vel\<close>, in program order.
\<close>

datatype event = Print string | InputVel axis_ref int

text \<open>
  The monitor thread is at its loop head (\<open>Alive\<close>), inside a loop turn whose test of
  \<open>running\<close> has passed (\<open>InTurn\<close>), has returned, or has died of an exception. The
  main thread waits in its loop (\<open>Waiting\<close>), is in its \<open>finally\<close> block after the
  motors were stopped (\<open>Stopping\<close>), or has ended, and the process with it.
\<close>

datatype thread_state = Alive | InTurn | Returned | Died exn

datatype main_state = Waiting | Stopping | Exited

record world =
  running :: bool
  current_key :: "string option"
  axis0 :: axis
  axis1 :: axis
  tty_attrs :: termios_attr
  tty_calls :: "tty_call list"
  trace :: "event list"
  monitor :: thread_state
  mainst :: main_state

type_synonym 'a io = "world \<Rightarrow> (exn + 'a) \<times> world"

subsection \<open>Control flow of Python: sequencing, \<open>raise\<close>, \<open>try\<close>\<close>

definition return_io :: "'a \<Rightarrow> 'a io" where
  "return_io x w = (Inr x, w)"

definition raise_io :: "exn \<Rightarrow> 'a io" where
  "raise_io e w = (Inl e, w)"

text \<open>Statement sequencing: an exception raised by the first statement skips the rest.\<close>

definition bind_io :: "'a io \<Rightarrow> ('a \<Rightarrow> 'b io) \<Rightarrow> 'b io" where
  "bind_io m f w = (case m w of (Inl e, w1) \<Rightarrow> (Inl e, w1) | (Inr x, w1) \<Rightarrow> f x w1)"

definition then_io :: "'a io \<Rightarrow> 'b io \<Rightarrow> 'b io" where
  "then_io m n = bind_io m (\<lambda>_. n)"

text \<open>\<^verbatim>\<open>try: m  except Exception as e: h(str(e))\<close>: only \<open>Exception\<close> is caught.\<close>

definition try_except :: "'a io \<Rightarrow> (string \<Rightarrow> 'a io) \<Rightarrow> 'a io" where
  "try_except m h w =
     (case m w of
        (Inl (Exception msg), w1) \<Rightarrow> h msg w1
      | (Inl KeyboardInterrupt, w1) \<Rightarrow> (Inl KeyboardInterrupt, w1)
      | (Inl (SystemExit c), w1) \<Rightarrow> (Inl (SystemExit c), w1)
      | (Inr x, w1) \<Rightarrow> (Inr x, w1))"

text \<open>
  \<^verbatim>\<open>try: m  finally: fin\<close>: \<open>fin\<close> runs on every exit of \<open>m\<close>; the result of \<open>m\<close>
  (value or exception) stands unless \<open>fin\<close> raises itself.
\<close>

definition try_finally :: "'a io \<Rightarrow> unit io \<Rightarrow> 'a io" where
  "try_finally m fin w =
     (case m w of
        (r, w1) \<Rightarrow> (case fin w1 of (Inl e, w2) \<Rightarrow> (Inl e, w2) | (Inr _, w2) \<Rightarrow> (r, w2)))"

definition print :: "string \<Rightarrow> unit io" where
  "print s w = (Inr (), w\<lparr>trace := trace w @ [Print s]\<rparr>)"

subsection \<open>The terminal device\<close>

definition tcgetattr :: "termios_attr io" where
  "tcgetattr w = (Inr (tty_attrs w), w\<lparr>tty_calls := tty_calls w @ [Tcgetattr]\<rparr>)"

definition tcsetattr :: "termios_attr \<Rightarrow> unit io" where
  "tcsetattr a w = (Inr (), w\<lparr>tty_attrs := a, tty_calls := tty_calls w @ [Tcsetattr a]\<rparr>)"

text \<open>\<open>tty.setraw\<close>: no echo, no line buffering, no signal keys, no output processing.\<close>

definition setraw :: "unit io" where
  "setraw w =
     (Inr (), w\<lparr>tty_attrs := (tty_attrs w)\<lparr>echo := False, icanon := False, isig := False,
                                            opost := False\<rparr>,
                tty_calls := tty_calls w @ [Setraw]\<rparr>)"

text \<open>
  What the terminal delivers to one sampling call is the argument \<open>inp\<close>: \<open>None\<close> when
  no byte arrives within the 0.5 s of \<open>select\<close>, \<open>Some s\<close> when \<open>select\<close> reports stdin
  readable and \<open>sys.stdin.read(1)\<close> returns \<open>s\<close>.
\<close>

definition select_stdin :: "string option \<Rightarrow> bool io" where
  "select_stdin inp w = (Inr (inp \<noteq> None), w\<lparr>tty_calls := tty_calls w @ [Select]\<rparr>)"

definition stdin_read :: "string option \<Rightarrow> string io" where
  "stdin_read inp w =
     (Inr (case inp of None \<Rightarrow> [] | Some s \<Rightarrow> s), w\<lparr>tty_calls := tty_calls w @ [Read]\<rparr>)"

subsection \<open>\<open>getch_non_blocking\<close>\<close>

text \<open>\<^verbatim>\<open>py_keycontroltest.py\<close>, lines 23-38.\<close>

definition kc_getch_non_blocking :: "string option \<Rightarrow> string option io" where
  "kc_getch_non_blocking inp =
     bind_io tcgetattr (\<lambda>old_settings.
       try_finally
         (then_io setraw
           (bind_io (select_stdin inp) (\<lambda>rlist.
              if rlist then
                bind_io (stdin_read inp) (\<lambda>char.
                  if char = [CHR 0x03] then raise_io KeyboardInterrupt
                  else return_io (Some char))
              else return_io None)))
         (tcsetattr old_settings))"

text \<open>\<^verbatim>\<open>py_twomotortest.py\<close>, lines 91-109.\<close>

definition tm_getch_non_blocking :: "string option \<Rightarrow> string option io" where
  "tm_getch_non_blocking inp =
     bind_io tcgetattr (\<lambda>old_settings.
       try_finally
         (then_io setraw
           (bind_io (select_stdin inp) (\<lambda>rlist.
              if rlist then
                bind_io (stdin_read inp) (\<lambda>char.
                  if char = [CHR 0x03] then raise_io KeyboardInterrupt
                  else if char = [CHR 0x1B] then return_io (Some ''esc'')
                  else return_io (Some char))
              else return_io None)))
         (tcsetattr old_settings))"

subsection \<open>The ODrive axes\<close>

definition get_axis :: "axis_ref \<Rightarrow> world \<Rightarrow> axis" where
  "get_axis r w = (case r of Axis0 \<Rightarrow> axis0 w | Axis1 \<Rightarrow> axis1 w)"

definition put_axis :: "axis_ref \<Rightarrow> axis \<Rightarrow> world \<Rightarrow> world" where
  "put_axis r a w = (case r of Axis0 \<Rightarrow> w\<lparr>axis0 := a\<rparr> | Axis1 \<Rightarrow> w\<lparr>axis1 := a\<rparr>)"

text \<open>
  The assignment \<^verbatim>\<open>axis.controller.input_vel = velocity\<close> on an object of the ODrive
  library: the attempt is recorded in the trace; on a faulty link it raises and the
  set-point keeps its value.
\<close>

definition write_input_vel :: "axis_ref \<Rightarrow> int \<Rightarrow> unit io" where
  "write_input_vel r v w =
     (case fault (get_axis r w) of
        Some msg \<Rightarrow> (Inl (Exception msg), w\<lparr>trace := trace w @ [InputVel r v]\<rparr>)
      | None \<Rightarrow>
          (Inr (), put_axis r ((get_axis r w)\<lparr>input_vel := v\<rparr>)
                     (w\<lparr>trace := trace w @ [InputVel r v]\<rparr>)))"

subsection \<open>\<^verbatim>\<open>py_twomotortest.py\<close>\<close>

text \<open>
  Lines 31-33. \<open>setup_motor(odrv, i)\<close> returns the axis object of index \<open>i\<close>, so the
  index constants stand for the handles of the left and the right axis.
\<close>

definition LEFT_MOTOR_INDEX :: axis_ref where
  "LEFT_MOTOR_INDEX = Axis0"

definition RIGHT_MOTOR_INDEX :: axis_ref where
  "RIGHT_MOTOR_INDEX = Axis1"

definition VELOCITY :: int where
  "VELOCITY = 1"

text \<open>Lines 71-76.\<close>

definition tm_set_motor_velocity :: "axis_ref \<Rightarrow> int \<Rightarrow> unit io" where
  "tm_set_motor_velocity ax velocity =
     try_except (write_input_vel ax velocity)
       (\<lambda>e. print (''Failed to set velocity: '' @ e))"

text \<open>Lines 78-83.\<close>

definition tm_stop_motor :: "axis_ref \<Rightarrow> unit io" where
  "tm_stop_motor ax =
     try_except (tm_set_motor_velocity ax 0)
       (\<lambda>e. print (''Failed to stop motor: '' @ e))"

text \<open>Lines 85-89.\<close>

definition tm_stop_all_motors :: "axis_ref \<Rightarrow> axis_ref \<Rightarrow> unit io" where
  "tm_stop_all_motors left_axis right_axis =
     then_io (tm_stop_motor left_axis)
       (then_io (tm_stop_motor right_axis) (print ''All motors stopped''))"

text \<open>The dictionary of lines 114-127 and its \<open>.get(key, "Unknown key")\<close>.\<close>

definition tm_key_name_table :: "(string \<times> string) list" where
  "tm_key_name_table =
     [(''1'', ''Left motor forward''),
      (''2'', ''Left motor backward''),
      (''3'', ''Right motor forward''),
      (''4'', ''Right motor backward''),
      (''w'', ''Both motors forward''),
      (''s'', ''Both motors backward''),
      (''a'', ''Right motor forward''),
      (''d'', ''Left motor forward''),
      (''q'', ''Left motor backward, right motor forward''),
      (''e'', ''Right motor backward, left motor forward''),
      (''x'', ''Stop all motors''),
      (''esc'', ''Quit program'')]"

definition tm_key_name :: "string \<Rightarrow> string" where
  "tm_key_name key =
     (case map_of tm_key_name_table key of Some n \<Rightarrow> n | None \<Rightarrow> ''Unknown key'')"

text \<open>A branch of the \<open>if\<close>/\<open>elif\<close> chain that falls through to the final \<open>return True\<close>.\<close>

definition falls_through :: "unit io \<Rightarrow> bool io" where
  "falls_through m = then_io m (return_io True)"

text \<open>Lines 111-163. The result \<open>False\<close> asks the caller to stop.\<close>

definition tm_handle_motor_control :: "string \<Rightarrow> axis_ref \<Rightarrow> axis_ref \<Rightarrow> bool io" where
  "tm_handle_motor_control key left_axis right_axis =
     then_io (print (''Command: '' @ tm_key_name key))
       (if key = ''1'' then falls_through (tm_set_motor_velocity left_axis VELOCITY)
        else if key = ''2'' then falls_through (tm_set_motor_velocity left_axis (- VELOCITY))
        else if key = ''3'' then falls_through (tm_set_motor_velocity right_axis VELOCITY)
        else if key = ''4'' then falls_through (tm_set_motor_velocity right_axis (- VELOCITY))
        else if key = ''w'' then
          falls_through (then_io (tm_set_motor_velocity left_axis VELOCITY)
                                 (tm_set_motor_velocity right_axis VELOCITY))
        else if key = ''s'' then
          falls_through (then_io (tm_set_motor_velocity left_axis (- VELOCITY))
                                 (tm_set_motor_velocity right_axis (- VELOCITY)))
        else if key = ''a'' then
          falls_through (then_io (tm_set_motor_velocity right_axis VELOCITY)
                                 (tm_set_motor_velocity left_axis 0))
        else if key = ''d'' then
          falls_through (then_io (tm_set_motor_velocity left_axis VELOCITY)
                                 (tm_set_motor_velocity right_axis 0))
        else if key = ''q'' then
          falls_through (then_io (tm_set_motor_velocity left_axis (- VELOCITY))
                                 (tm_set_motor_velocity right_axis VELOCITY))
        else if key = ''e'' then
          falls_through (then_io (tm_set_motor_velocity right_axis (- VELOCITY))
                                 (tm_set_motor_velocity left_axis VELOCITY))
        else if key = ''x'' then falls_through (tm_stop_all_motors left_axis right_axis)
        else if key = ''esc'' then return_io False
        else return_io True)"

text \<open>
  Lines 172-189, the block under \<open>with key_lock\<close> of one loop iteration. The result
  \<open>True\<close> says that the \<open>break\<close> of line 182 was taken.
\<close>

definition tm_key_monitor_body :: "axis_ref \<Rightarrow> axis_ref \<Rightarrow> string option \<Rightarrow> bool io" where
  "tm_key_monitor_body left_axis right_axis key w =
     (case key of
        Some k \<Rightarrow>
          if Some k \<noteq> current_key w then
            bind_io (tm_handle_motor_control k left_axis right_axis)
              (\<lambda>cont w2. if \<not> cont then (Inr True, w2\<lparr>running := False\<rparr>) else (Inr False, w2))
              (w\<lparr>current_key := Some k\<rparr>)
          else (Inr False, w)
      | None \<Rightarrow>
          if current_key w \<noteq> None then
            bind_io
              (then_io (print ''Keys released, stopping all motors'')
                       (tm_stop_all_motors left_axis right_axis))
              (\<lambda>_ w2. (Inr False, w2\<lparr>current_key := None\<rparr>)) w
          else (Inr False, w))"

text \<open>One iteration of the loop of lines 169-191: sample, then the locked block.\<close>

definition tm_key_monitor_iteration ::
  "axis_ref \<Rightarrow> axis_ref \<Rightarrow> string option \<Rightarrow> bool io" where
  "tm_key_monitor_iteration left_axis right_axis inp =
     bind_io (tm_getch_non_blocking inp) (tm_key_monitor_body left_axis right_axis)"

text \<open>
  Lines 165-191, the thread function. The list holds what the terminal delivers to the
  successive sampling calls; the loop runs until \<open>running\<close> is false, the \<open>break\<close> is
  taken, an exception leaves the function (the thread dies, nothing catches it), or
  the list is used up, where the thread stays alive at its loop head.
\<close>

fun tm_key_monitor_thread :: "axis_ref \<Rightarrow> axis_ref \<Rightarrow> string option list \<Rightarrow> world \<Rightarrow> world" where
  "tm_key_monitor_thread left_axis right_axis [] w = w"
| "tm_key_monitor_thread left_axis right_axis (inp # inps) w =
     (if \<not> running w then w\<lparr>monitor := Returned\<rparr>
      else
        (case tm_key_monitor_iteration left_axis right_axis inp w of
           (Inl e, w1) \<Rightarrow> w1\<lparr>monitor := Died e\<rparr>
         | (Inr brk, w1) \<Rightarrow>
             if brk then w1\<lparr>monitor := Returned\<rparr>
             else tm_key_monitor_thread left_axis right_axis inps w1))"

text \<open>Lines 193-197.\<close>

definition tm_signal_handler :: "unit io" where
  "tm_signal_handler =
     then_io (print (CHR 0x0A # ''Ctrl+C detected. Exiting gracefully...''))
       (\<lambda>w. (Inr (), w\<lparr>running := False\<rparr>))"

text \<open>
  Lines 232-242 of \<open>main\<close>, one poll of the wait loop: while \<open>running\<close> holds the main
  thread sleeps; once it is false the \<open>finally\<close> block runs and the process ends
  (the monitor is a daemon thread and ends with it).
\<close>

definition tm_main_poll :: "axis_ref \<Rightarrow> axis_ref \<Rightarrow> world \<Rightarrow> world" where
  "tm_main_poll left_axis right_axis w =
     (if running w then w
      else
        (case then_io (tm_stop_all_motors left_axis right_axis)
                (print ''Program terminated.'') w of
           (r, w1) \<Rightarrow> w1\<lparr>mainst := Exited\<rparr>))"

text \<open>
  The world when \<open>main\<close> has set up both axes, registered the handler and started the
  monitor thread (lines 217-230; the banner and the set-up are not part of the trace).
\<close>

definition tm_started :: "axis \<Rightarrow> axis \<Rightarrow> termios_attr \<Rightarrow> world" where
  "tm_started a0 a1 attrs =
     \<lparr>running = True, current_key = None, axis0 = a0, axis1 = a1, tty_attrs = attrs,
      tty_calls = [], trace = [], monitor = Alive, mainst = Waiting\<rparr>"

text \<open>
  Lines 170-191: the rest of a loop turn whose test of \<open>running\<close> (line 169) has
  passed. The turn samples, runs its locked block and comes back to the loop head,
  unless the \<open>break\<close> or an exception ends the thread.
\<close>

definition tm_turn_in_flight :: "axis_ref \<Rightarrow> axis_ref \<Rightarrow> string option \<Rightarrow> world \<Rightarrow> world" where
  "tm_turn_in_flight left_axis right_axis inp w =
     (case tm_key_monitor_iteration left_axis right_axis inp w of
        (Inl e, w1) \<Rightarrow> w1\<lparr>monitor := Died e\<rparr>
      | (Inr brk, w1) \<Rightarrow> if brk then w1\<lparr>monitor := Returned\<rparr> else w1\<lparr>monitor := Alive\<rparr>)"

text \<open>
  The process as a transition system. The monitor thread reads \<open>running\<close> only at its
  loop head, and the main thread stops the motors in its \<open>finally\<close> block without
  taking \<open>key_lock\<close>, so SIGINT and the clean-up of the main thread can fall inside
  a loop turn. The transitions are:
  \<^item> \<open>LoopTest\<close>: the monitor at its loop head tests \<open>running\<close> (line 169) and enters
    a turn or returns;
  \<^item> \<open>Turn inp\<close>: the turn in flight samples what the terminal delivers and runs its
    locked block (lines 170-191);
  \<^item> \<open>Sample inp\<close>: a whole loop turn with nothing in between, the loop-head test
    followed by the sampling and the locked block;
  \<^item> \<open>MainStop\<close>: the main thread finds \<open>running\<close> false, leaves its wait loop and
    stops both motors (lines 234-239);
  \<^item> \<open>MainEnd\<close>: the main thread finishes its \<open>finally\<close> block and the process ends
    (lines 240-242);
  \<^item> \<open>MainPoll\<close>: one poll of the waiting main thread with nothing in between: it
    sleeps on while \<open>running\<close> holds and otherwise runs its whole \<open>finally\<close> block;
  \<^item> \<open>Sigint\<close>: SIGINT arrives and the handler runs.

  Nothing happens once the process has ended (the monitor is a daemon thread), and a
  thread that has returned or died does not run again. The locked block of a turn and
  \<open>stop_all_motors\<close> of the main thread are each taken as one transition: their
  single writes are not interleaved with each other.
\<close>

datatype sched =
  Sample "string option"
  | LoopTest
  | Turn "string option"
  | MainPoll
  | MainStop
  | MainEnd
  | Sigint

definition tm_step :: "sched \<Rightarrow> world \<Rightarrow> world" where
  "tm_step ev w =
     (if mainst w = Exited then w
      else
        (case ev of
           Sample inp \<Rightarrow>
             if monitor w = Alive
             then tm_key_monitor_thread LEFT_MOTOR_INDEX RIGHT_MOTOR_INDEX [inp] w
             else w
         | LoopTest \<Rightarrow>
             if monitor w = Alive
             then (if running w then w\<lparr>monitor := InTurn\<rparr> else w\<lparr>monitor := Returned\<rparr>)
             else w
         | Turn inp \<Rightarrow>
             if monitor w = InTurn
             then tm_turn_in_flight LEFT_MOTOR_INDEX RIGHT_MOTOR_INDEX inp w
             else w
         | MainPoll \<Rightarrow>
             if mainst w = Waiting then tm_main_poll LEFT_MOTOR_INDEX RIGHT_MOTOR_INDEX w
             else w
         | MainStop \<Rightarrow>
             if mainst w = Waiting \<and> \<not> running w
             then (snd (tm_stop_all_motors LEFT_MOTOR_INDEX RIGHT_MOTOR_INDEX w))
                    \<lparr>mainst := Stopping\<rparr>
             else w
         | MainEnd \<Rightarrow>
             if mainst w = Stopping
             then (snd (print ''Program terminated.'' w))\<lparr>mainst := Exited\<rparr>
             else w
         | Sigint \<Rightarrow> snd (tm_signal_handler w)))"

primrec tm_run :: "sched list \<Rightarrow> world \<Rightarrow> world" where
  "tm_run [] w = w"
| "tm_run (ev # evs) w = tm_run evs (tm_step ev w)"

subsection \<open>\<^verbatim>\<open>py_keycontroltest.py\<close>\<close>

text \<open>
  \<open>str.lower()\<close> on the ASCII letters; the script only compares the result with \<open>'q'\<close>.
\<close>

definition char_lower :: "char \<Rightarrow> char" where
  "char_lower c =
     (if 65 \<le> (of_char c :: nat) \<and> (of_char c :: nat) \<le> 90
      then char_of ((of_char c :: nat) + 32) else c)"

definition str_lower :: "string \<Rightarrow> string" where
  "str_lower s = map char_lower s"

text \<open>Lines 47-67, the block under \<open>with key_lock\<close> of one loop iteration.\<close>

definition kc_key_monitor_body :: "string option \<Rightarrow> unit io" where
  "kc_key_monitor_body key w =
     (case key of
        Some k \<Rightarrow>
          if Some k \<noteq> current_key w then
            (if k = ''1'' then print ''ACTION: Moving forward''
             else if k = ''2'' then print ''ACTION: Moving backward''
             else if str_lower k = ''q'' then
               then_io (print (CHR 0x0A # ''Quitting program...''))
                 (\<lambda>w2. (Inr (), w2\<lparr>running := False\<rparr>))
             else print ''ACTION: Stopping (other key pressed)'')
              (w\<lparr>current_key := Some k\<rparr>)
          else (Inr (), w)
      | None \<Rightarrow>
          then_io
            (if current_key w = Some ''1'' \<or> current_key w = Some ''2''
             then print ''ACTION: Stopping (key released)'' else return_io ())
            (\<lambda>w2. (Inr (), w2\<lparr>current_key := None\<rparr>)) w)"

definition kc_key_monitor_iteration :: "string option \<Rightarrow> unit io" where
  "kc_key_monitor_iteration inp = bind_io (kc_getch_non_blocking inp) kc_key_monitor_body"

text \<open>Lines 40-69, the thread function, on what the terminal delivers to each sampling.\<close>

fun kc_key_monitor_thread :: "string option list \<Rightarrow> world \<Rightarrow> world" where
  "kc_key_monitor_thread [] w = w"
| "kc_key_monitor_thread (inp # inps) w =
     (if \<not> running w then w\<lparr>monitor := Returned\<rparr>
      else
        (case kc_key_monitor_iteration inp w of
           (Inl e, w1) \<Rightarrow> w1\<lparr>monitor := Died e\<rparr>
         | (Inr u, w1) \<Rightarrow> kc_key_monitor_thread inps w1))"

text \<open>Lines 71-75.\<close>

definition kc_signal_handler :: "unit io" where
  "kc_signal_handler =
     then_io (print (CHR 0x0A # ''Ctrl+C detected. Exiting gracefully...''))
       (\<lambda>w. (Inr (), w\<lparr>running := False\<rparr>))"

text \<open>Lines 94-101 of \<open>main\<close>, one poll of the wait loop.\<close>

definition kc_main_poll :: "world \<Rightarrow> world" where
  "kc_main_poll w =
     (if running w then w
      else (case print ''Program terminated.'' w of (r, w1) \<Rightarrow> w1\<lparr>mainst := Exited\<rparr>))"

text \<open>
  The world when \<open>main\<close> has registered the handler and started the monitor thread
  (lines 86-92). The script has no ODrive: the axis fields are never read or written.
\<close>

definition kc_started :: "termios_attr \<Rightarrow> world" where
  "kc_started attrs =
     \<lparr>running = True, current_key = None, axis0 = \<lparr>input_vel = 0, fault = None\<rparr>,
      axis1 = \<lparr>input_vel = 0, fault = None\<rparr>, tty_attrs = attrs, tty_calls = [],
      trace = [], monitor = Alive, mainst = Waiting\<rparr>"

text \<open>Lines 45-69: the rest of a loop turn whose test of \<open>running\<close> (line 44) has passed.\<close>

definition kc_turn_in_flight :: "string option \<Rightarrow> world \<Rightarrow> world" where
  "kc_turn_in_flight inp w =
     (case kc_key_monitor_iteration inp w of
        (Inl e, w1) \<Rightarrow> w1\<lparr>monitor := Died e\<rparr>
      | (Inr u, w1) \<Rightarrow> w1\<lparr>monitor := Alive\<rparr>)"

text \<open>
  The transitions of the key-control process, as for the two-motor process. Its main
  thread has no motors to stop: \<open>MainStop\<close> only leaves the wait loop (lines 96-97),
  and \<open>MainEnd\<close> is the \<open>finally\<close> block (line 101).
\<close>

definition kc_step :: "sched \<Rightarrow> world \<Rightarrow> world" where
  "kc_step ev w =
     (if mainst w = Exited then w
      else
        (case ev of
           Sample inp \<Rightarrow> if monitor w = Alive then kc_key_monitor_thread [inp] w else w
         | LoopTest \<Rightarrow>
             if monitor w = Alive
             then (if running w then w\<lparr>monitor := InTurn\<rparr> else w\<lparr>monitor := Returned\<rparr>)
             else w
         | Turn inp \<Rightarrow> if monitor w = InTurn then kc_turn_in_flight inp w else w
         | MainPoll \<Rightarrow> if mainst w = Waiting then kc_main_poll w else w
         | MainStop \<Rightarrow>
             if mainst w = Waiting \<and> \<not> running w then w\<lparr>mainst := Stopping\<rparr> else w
         | MainEnd \<Rightarrow>
             if mainst w = Stopping
             then (snd (print ''Program terminated.'' w))\<lparr>mainst := Exited\<rparr>
             else w
         | Sigint \<Rightarrow> snd (kc_signal_handler w)))"

primrec kc_run :: "sched list \<Rightarrow> world \<Rightarrow> world" where
  "kc_run [] w = w"
| "kc_run (ev # evs) w = kc_run evs (kc_step ev w)"

subsection \<open>\<^verbatim>\<open>py_onewheeltest.py\<close>\<close>

definition MOTOR_INDEX :: axis_ref where
  "MOTOR_INDEX = Axis0"

definition FORWARD_VELOCITY :: int where
  "FORWARD_VELOCITY = 1"

definition BACKWARD_VELOCITY :: int where
  "BACKWARD_VELOCITY = - 1"

text \<open>The decimal text of an integer, as an f-string prints it.\<close>

fun str_nat :: "nat \<Rightarrow> string" where
  "str_nat n =
     (if n < 10 then [char_of (48 + n)] else str_nat (n div 10) @ [char_of (48 + n mod 10)])"

declare str_nat.simps [simp del]

definition str_int :: "int \<Rightarrow> string" where
  "str_int i = (if i < 0 then CHR ''-'' # str_nat (nat (- i)) else str_nat (nat i))"

text \<open>Lines 54-60.\<close>

definition ow_set_velocity :: "axis_ref \<Rightarrow> int \<Rightarrow> unit io" where
  "ow_set_velocity ax velocity =
     try_except
       (then_io (write_input_vel ax velocity)
          (print (''Velocity set to: '' @ str_int velocity @ '' counts/s'')))
       (\<lambda>e. print (''Failed to set velocity: '' @ e))"

text \<open>Lines 62-69.\<close>

definition ow_stop_motor :: "axis_ref \<Rightarrow> unit io" where
  "ow_stop_motor ax =
     try_except (then_io (print ''Stopping motor...'') (ow_set_velocity ax 0))
       (\<lambda>e. print (''Failed to stop motor: '' @ e))"

text \<open>
  Lines 71-76. The handler is registered after the global \<open>axis\<close> is bound, so the test
  \<open>'axis' in globals()\<close> holds whenever it runs.
\<close>

definition ow_signal_handler :: "axis_ref \<Rightarrow> unit io" where
  "ow_signal_handler ax =
     then_io (print (CHR 0x0A # ''Ctrl+C detected. Exiting gracefully...''))
       (then_io (ow_stop_motor ax) (raise_io (SystemExit 0)))"

text \<open>
  Lines 100-113, the body of the \<open>while True\<close> loop after \<open>input\<close> has returned. The
  result \<open>True\<close> says that the \<open>break\<close> of line 111 was taken.
\<close>

definition ow_command :: "axis_ref \<Rightarrow> string \<Rightarrow> bool io" where
  "ow_command ax user_input =
     (if user_input = ''1'' then then_io (ow_set_velocity ax FORWARD_VELOCITY) (return_io False)
      else if user_input = ''2'' then
        then_io (ow_set_velocity ax BACKWARD_VELOCITY) (return_io False)
      else if user_input = ''0'' then then_io (ow_set_velocity ax 0) (return_io False)
      else if str_lower user_input = ''q'' then
        then_io (ow_stop_motor ax) (then_io (print ''Exiting program...'') (return_io True))
      else
        then_io (print ''Invalid input. Please enter 1, 2, 0, or q.'') (return_io False))"

text \<open>
  What a call of \<open>input\<close> meets: a line, SIGINT while it waits (the handler runs and its
  \<open>sys.exit\<close> leaves \<open>input\<close> as \<open>SystemExit\<close>), or, with the list used up, the end of
  stdin (\<open>EOFError\<close>).
\<close>

datatype ow_input = Line string | Interrupted

fun ow_main_loop :: "axis_ref \<Rightarrow> ow_input list \<Rightarrow> unit io" where
  "ow_main_loop ax [] =
     then_io (print ''Enter command (1/2/0/q): '')
       (raise_io (Exception ''EOF when reading a line''))"
| "ow_main_loop ax (Interrupted # rest) =
     then_io (print ''Enter command (1/2/0/q): '') (ow_signal_handler ax)"
| "ow_main_loop ax (Line user_input # rest) =
     then_io (print ''Enter command (1/2/0/q): '')
       (bind_io (ow_command ax user_input)
          (\<lambda>brk. if brk then return_io () else ow_main_loop ax rest))"

text \<open>Lines 97-117 of \<open>main\<close>.\<close>

definition ow_main :: "axis_ref \<Rightarrow> ow_input list \<Rightarrow> unit io" where
  "ow_main ax inputs =
     try_finally (try_except (ow_main_loop ax inputs) (\<lambda>e. print (''Error: '' @ e)))
       (ow_stop_motor ax)"

subsection \<open>Reading the trace\<close>

text \<open>The actuator commands of a trace, and what a transition sequence adds to the trace.\<close>

fun is_command :: "event \<Rightarrow> bool" where
  "is_command (InputVel r v) = True"
| "is_command (Print s) = False"

definition commands :: "event list \<Rightarrow> event list" where
  "commands tr = filter is_command tr"

definition emitted :: "world \<Rightarrow> world \<Rightarrow> event list" where
  "emitted w w' = drop (length (trace w)) (trace w')"

subsection \<open>Worlds after the basic effects\<close>

text \<open>
  Names for the world after a \<open>print\<close>, after one velocity command on an axis, and
  after one sampling call; and for the key that the two-motor sampler returns for a
  character read.
\<close>

definition logged :: "string \<Rightarrow> world \<Rightarrow> world" where
  "logged s w = w\<lparr>trace := trace w @ [Print s]\<rparr>"

definition set_vel :: "axis_ref \<Rightarrow> int \<Rightarrow> world \<Rightarrow> world" where
  "set_vel ax v w =
     (case fault (get_axis ax w) of
        None \<Rightarrow>
          put_axis ax ((get_axis ax w)\<lparr>input_vel := v\<rparr>) (w\<lparr>trace := trace w @ [InputVel ax v]\<rparr>)
      | Some msg \<Rightarrow>
          w\<lparr>trace := trace w @ [InputVel ax v, Print (''Failed to set velocity: '' @ msg)]\<rparr>)"

definition sampled :: "string option \<Rightarrow> world \<Rightarrow> world" where
  "sampled inp w =
     w\<lparr>tty_calls := tty_calls w @ [Tcgetattr, Setraw, Select]
          @ (if inp = None then [] else [Read]) @ [Tcsetattr (tty_attrs w)]\<rparr>"

definition tm_key_of :: "string \<Rightarrow> string" where
  "tm_key_of s = (if s = [CHR 0x1B] then ''esc'' else s)"

definition tm_release_msg :: event where
  "tm_release_msg = Print ''Keys released, stopping all motors''"

definition kc_release_msg :: event where
  "kc_release_msg = Print ''ACTION: Stopping (key released)''"

subsection \<open>Example worlds\<close>

text \<open>
  A terminal in its usual line mode, an axis at rest with a working link, an axis at
  rest whose link is down, and the two-motor and the key-control world after key
  \<open>k\<close> was sampled first.
\<close>

definition cooked :: termios_attr where
  "cooked = \<lparr>echo = True, icanon = True, isig = True, opost = True\<rparr>"

definition idle_axis :: axis where
  "idle_axis = \<lparr>input_vel = 0, fault = None\<rparr>"

definition broken_axis :: axis where
  "broken_axis = \<lparr>input_vel = 0, fault = Some ''device disconnected''\<rparr>"

definition tm_holding :: "string \<Rightarrow> world" where
  "tm_holding k =
     tm_key_monitor_thread LEFT_MOTOR_INDEX RIGHT_MOTOR_INDEX [Some k]
       (tm_started idle_axis idle_axis cooked)"

definition kc_holding :: "string \<Rightarrow> world" where
  "kc_holding k = kc_key_monitor_thread [Some k] (kc_started cooked)"

text \<open>
  The one-wheel world when \<open>main\<close> has set up the axis (lines 87-95). The script has no
  monitor thread, run flag or held key: those fields are never read or written.
\<close>

definition ow_started :: "axis \<Rightarrow> world" where
  "ow_started a =
     \<lparr>running = True, current_key = None, axis0 = a, axis1 = a, tty_attrs = cooked,
      tty_calls = [], trace = [], monitor = Returned, mainst = Waiting\<rparr>"

lemmas io_defs =
  return_io_def raise_io_def bind_io_def then_io_def try_except_def try_finally_def print_def

lemmas tty_defs =
  tcgetattr_def tcsetattr_def setraw_def select_stdin_def stdin_read_def

section \<open>Properties\<close>

subsection \<open>Closed forms of the basic operations\<close>

lemmas seq_defs = then_io_def bind_io_def return_io_def raise_io_def falls_through_def

lemma print_eq: "print s w = (Inr (), logged s w)"
  by (simp add: print_def logged_def)

lemma kc_getch_eq:
  "kc_getch_non_blocking inp w =
     ((case inp of None \<Rightarrow> Inr None
       | Some s \<Rightarrow> if s = [CHR 0x03] then Inl KeyboardInterrupt else Inr (Some s)),
      sampled inp w)"
  by (simp add: kc_getch_non_blocking_def io_defs tty_defs sampled_def split: option.splits)

lemma tm_getch_eq:
  "tm_getch_non_blocking inp w =
     ((case inp of None \<Rightarrow> Inr None
       | Some s \<Rightarrow> if s = [CHR 0x03] then Inl KeyboardInterrupt else Inr (Some (tm_key_of s))),
      sampled inp w)"
  by (simp add: tm_getch_non_blocking_def io_defs tty_defs sampled_def tm_key_of_def
      split: option.splits)

lemma tm_set_motor_velocity_eq: "tm_set_motor_velocity ax v w = (Inr (), set_vel ax v w)"
  by (simp add: tm_set_motor_velocity_def write_input_vel_def try_except_def print_def
      set_vel_def split: option.splits)

lemma tm_stop_motor_eq: "tm_stop_motor ax w = (Inr (), set_vel ax 0 w)"
  by (simp add: tm_stop_motor_def try_except_def tm_set_motor_velocity_eq)

lemma tm_stop_all_motors_eq:
  "tm_stop_all_motors l r w =
     (Inr (), logged ''All motors stopped'' (set_vel r 0 (set_vel l 0 w)))"
  by (simp add: tm_stop_all_motors_def seq_defs tm_stop_motor_eq print_eq)

lemma logged_proj [simp]:
  "running (logged s w) = running w"
  "current_key (logged s w) = current_key w"
  "tty_attrs (logged s w) = tty_attrs w"
  "tty_calls (logged s w) = tty_calls w"
  "monitor (logged s w) = monitor w"
  "mainst (logged s w) = mainst w"
  "axis0 (logged s w) = axis0 w"
  "axis1 (logged s w) = axis1 w"
  "get_axis a (logged s w) = get_axis a w"
  "trace (logged s w) = trace w @ [Print s]"
  by (simp_all add: logged_def get_axis_def split: axis_ref.splits)

lemma sampled_proj [simp]:
  "running (sampled inp w) = running w"
  "current_key (sampled inp w) = current_key w"
  "tty_attrs (sampled inp w) = tty_attrs w"
  "monitor (sampled inp w) = monitor w"
  "mainst (sampled inp w) = mainst w"
  "axis0 (sampled inp w) = axis0 w"
  "axis1 (sampled inp w) = axis1 w"
  "get_axis a (sampled inp w) = get_axis a w"
  "trace (sampled inp w) = trace w"
  by (simp_all add: sampled_def get_axis_def split: axis_ref.splits)

lemma set_vel_proj [simp]:
  "running (set_vel ax v w) = running w"
  "current_key (set_vel ax v w) = current_key w"
  "tty_attrs (set_vel ax v w) = tty_attrs w"
  "tty_calls (set_vel ax v w) = tty_calls w"
  "monitor (set_vel ax v w) = monitor w"
  "mainst (set_vel ax v w) = mainst w"
  "fault (get_axis a (set_vel ax v w)) = fault (get_axis a w)"
  "input_vel (get_axis a (set_vel ax v w)) =
     (if a = ax \<and> fault (get_axis ax w) = None then v else input_vel (get_axis a w))"
  "trace (set_vel ax v w) =
     trace w @ InputVel ax v #
       (case fault (get_axis ax w) of None \<Rightarrow> []
        | Some msg \<Rightarrow> [Print (''Failed to set velocity: '' @ msg)])"
  by (simp_all add: set_vel_def get_axis_def put_axis_def split: option.splits axis_ref.splits)

lemma set_vel_other_axis: "a \<noteq> ax \<Longrightarrow> get_axis a (set_vel ax v w) = get_axis a w"
  by (cases a; cases ax) (simp_all add: set_vel_def get_axis_def put_axis_def split: option.splits)

lemma get_axis_updates [simp]:
  "get_axis a (w\<lparr>current_key := ck\<rparr>) = get_axis a w"
  "get_axis a (w\<lparr>running := b\<rparr>) = get_axis a w"
  "get_axis a (w\<lparr>monitor := m\<rparr>) = get_axis a w"
  "get_axis a (w\<lparr>mainst := ms\<rparr>) = get_axis a w"
  "get_axis a (w\<lparr>tty_calls := c\<rparr>) = get_axis a w"
  "get_axis a (w\<lparr>trace := t\<rparr>) = get_axis a w"
  by (simp_all add: get_axis_def split: axis_ref.splits)

lemma commands_simps [simp]:
  "commands [] = []"
  "commands (InputVel r v # tr) = InputVel r v # commands tr"
  "commands (Print s # tr) = commands tr"
  "commands (xs @ ys) = commands xs @ commands ys"
  by (simp_all add: commands_def)

lemma commands_fault_log [simp]:
  "commands (case f of None \<Rightarrow> [] | Some msg \<Rightarrow> [Print (p @ msg)]) = []"
  by (simp split: option.splits)

lemma emitted_append: "trace w' = trace w @ xs \<Longrightarrow> emitted w w' = xs"
  by (simp add: emitted_def)

subsection \<open>The dispatcher \<open>handle_motor_control\<close>\<close>

lemmas tm_handle_unfold =
  tm_handle_motor_control_def seq_defs print_eq tm_set_motor_velocity_eq tm_stop_all_motors_eq

lemma tm_handle_fst: "fst (tm_handle_motor_control key l r w) = Inr (key \<noteq> ''esc'')"
  by (simp add: tm_handle_unfold)

lemma tm_handle_frame:
  "running (snd (tm_handle_motor_control key l r w)) = running w"
  "current_key (snd (tm_handle_motor_control key l r w)) = current_key w"
  "tty_attrs (snd (tm_handle_motor_control key l r w)) = tty_attrs w"
  "tty_calls (snd (tm_handle_motor_control key l r w)) = tty_calls w"
  "monitor (snd (tm_handle_motor_control key l r w)) = monitor w"
  "mainst (snd (tm_handle_motor_control key l r w)) = mainst w"
  "fault (get_axis a (snd (tm_handle_motor_control key l r w))) = fault (get_axis a w)"
  by (simp_all add: tm_handle_unfold)

lemma tm_handle_trace:
  "\<exists>xs. trace (snd (tm_handle_motor_control key l r w)) = trace w @ xs \<and>
        count_list xs tm_release_msg = 0"
  by (simp add: tm_handle_unfold tm_release_msg_def split: option.splits)

subsection \<open>One loop iteration of the two-motor monitor\<close>

lemma tm_body_held:
  "current_key w = Some k \<Longrightarrow> tm_key_monitor_body l r (Some k) w = (Inr False, w)"
  by (simp add: tm_key_monitor_body_def)

lemma tm_body_pressed:
  assumes "current_key w \<noteq> Some k"
  shows "tm_key_monitor_body l r (Some k) w =
     (if k = ''esc''
      then (Inr True, (snd (tm_handle_motor_control k l r (w\<lparr>current_key := Some k\<rparr>)))
                        \<lparr>running := False\<rparr>)
      else (Inr False, snd (tm_handle_motor_control k l r (w\<lparr>current_key := Some k\<rparr>))))"
proof -
  obtain res w2 where h: "tm_handle_motor_control k l r (w\<lparr>current_key := Some k\<rparr>) = (res, w2)"
    by (cases "tm_handle_motor_control k l r (w\<lparr>current_key := Some k\<rparr>)")
  with tm_handle_fst [of k l r "w\<lparr>current_key := Some k\<rparr>"] have "res = Inr (k \<noteq> ''esc'')"
    by simp
  with assms h show ?thesis
    by (auto simp add: tm_key_monitor_body_def bind_io_def)
qed

lemma tm_body_None:
  "tm_key_monitor_body l r None w =
     (Inr False,
      if current_key w = None then w
      else (logged ''All motors stopped''
              (set_vel r 0 (set_vel l 0 (logged ''Keys released, stopping all motors'' w))))
             \<lparr>current_key := None\<rparr>)"
  by (simp add: tm_key_monitor_body_def seq_defs print_eq tm_stop_all_motors_eq)

lemma tm_iteration_eq:
  "tm_key_monitor_iteration l r inp w =
     (case inp of
        None \<Rightarrow> tm_key_monitor_body l r None (sampled inp w)
      | Some s \<Rightarrow>
          if s = [CHR 0x03] then (Inl KeyboardInterrupt, sampled inp w)
          else tm_key_monitor_body l r (Some (tm_key_of s)) (sampled inp w))"
  by (simp add: tm_key_monitor_iteration_def bind_io_def tm_getch_eq split: option.splits)

lemma tm_body_running:
  "running (snd (tm_key_monitor_body l r key w)) =
     (running w \<and> fst (tm_key_monitor_body l r key w) = Inr False)"
proof (cases key)
  case None
  then show ?thesis by (simp add: tm_body_None)
next
  case (Some k)
  then show ?thesis
    by (cases "current_key w = Some k") (simp_all add: tm_body_held tm_body_pressed tm_handle_frame)
qed

lemma tm_body_fst:
  "fst (tm_key_monitor_body l r key w) =
     Inr (key = Some ''esc'' \<and> current_key w \<noteq> Some ''esc'')"
proof (cases key)
  case None
  then show ?thesis by (simp add: tm_body_None)
next
  case (Some k)
  then show ?thesis
    by (cases "current_key w = Some k") (auto simp add: tm_body_held tm_body_pressed)
qed

lemma tm_body_current_key:
  "current_key (snd (tm_key_monitor_body l r key w)) = key"
proof (cases key)
  case None
  then show ?thesis by (simp add: tm_body_None)
next
  case (Some k)
  then show ?thesis
    by (cases "current_key w = Some k") (simp_all add: tm_body_held tm_body_pressed tm_handle_frame)
qed

lemma tm_body_threads:
  "monitor (snd (tm_key_monitor_body l r key w)) = monitor w \<and>
   mainst (snd (tm_key_monitor_body l r key w)) = mainst w"
proof (cases key)
  case None
  then show ?thesis by (simp add: tm_body_None)
next
  case (Some k)
  then show ?thesis
    by (cases "current_key w = Some k") (simp_all add: tm_body_held tm_body_pressed tm_handle_frame)
qed

lemma tm_body_trace:
  "\<exists>xs. trace (snd (tm_key_monitor_body l r key w)) = trace w @ xs \<and>
        count_list xs tm_release_msg = (if key = None \<and> current_key w \<noteq> None then 1 else 0)"
proof (cases key)
  case None
  then show ?thesis
    by (simp add: tm_body_None tm_release_msg_def split: option.splits)
next
  case (Some k)
  show ?thesis
  proof (cases "current_key w = Some k")
    case True
    with Some show ?thesis by (simp add: tm_body_held)
  next
    case False
    from tm_handle_trace [of k l r "w\<lparr>current_key := Some k\<rparr>"]
    obtain xs where "trace (snd (tm_handle_motor_control k l r (w\<lparr>current_key := Some k\<rparr>)))
        = trace w @ xs" and "count_list xs tm_release_msg = 0"
      by auto
    with Some False show ?thesis by (auto simp add: tm_body_pressed)
  qed
qed

subsection \<open>The two-motor monitor thread\<close>

lemma tm_iteration_fst:
  "fst (tm_key_monitor_iteration l r inp w) =
     (if inp = Some [CHR 0x03] then Inl KeyboardInterrupt
      else Inr (inp \<noteq> None \<and> tm_key_of (the inp) = ''esc'' \<and> current_key w \<noteq> Some ''esc''))"
  by (auto simp add: tm_iteration_eq tm_body_fst split: option.splits)

lemma tm_iteration_running:
  "running (snd (tm_key_monitor_iteration l r inp w)) =
     (running w \<and> fst (tm_key_monitor_iteration l r inp w) \<noteq> Inr True)"
  by (auto simp add: tm_iteration_eq tm_body_running tm_body_fst split: option.splits)

lemma tm_iteration_current_key:
  "fst (tm_key_monitor_iteration l r inp w) = Inr b \<Longrightarrow>
   current_key (snd (tm_key_monitor_iteration l r inp w)) = map_option tm_key_of inp"
  by (auto simp add: tm_iteration_eq tm_body_current_key split: option.splits if_splits)

lemma tm_iteration_threads:
  "monitor (snd (tm_key_monitor_iteration l r inp w)) = monitor w \<and>
   mainst (snd (tm_key_monitor_iteration l r inp w)) = mainst w"
  by (simp add: tm_iteration_eq tm_body_threads split: option.splits)

lemma tm_iteration_trace:
  "\<exists>xs. trace (snd (tm_key_monitor_iteration l r inp w)) = trace w @ xs \<and>
        count_list xs tm_release_msg = (if inp = None \<and> current_key w \<noteq> None then 1 else 0)"
proof (cases "inp = Some [CHR 0x03]")
  case True
  then show ?thesis by (simp add: tm_iteration_eq)
next
  case False
  then have "tm_key_monitor_iteration l r inp w =
      tm_key_monitor_body l r (map_option tm_key_of inp) (sampled inp w)"
    by (simp add: tm_iteration_eq split: option.splits)
  with tm_body_trace [of l r "map_option tm_key_of inp" "sampled inp w"] show ?thesis
    by simp
qed

lemma tm_iteration_held:
  "current_key w = Some (tm_key_of s) \<Longrightarrow> s \<noteq> [CHR 0x03] \<Longrightarrow>
   tm_key_monitor_iteration l r (Some s) w = (Inr False, sampled (Some s) w)"
  by (simp add: tm_iteration_eq tm_body_held)

lemma tm_thread_Cons:
  "running w \<Longrightarrow>
   tm_key_monitor_thread l r (inp # inps) w =
     (case fst (tm_key_monitor_iteration l r inp w) of
        Inl e \<Rightarrow> (snd (tm_key_monitor_iteration l r inp w))\<lparr>monitor := Died e\<rparr>
      | Inr brk \<Rightarrow>
          if brk then (snd (tm_key_monitor_iteration l r inp w))\<lparr>monitor := Returned\<rparr>
          else tm_key_monitor_thread l r inps (snd (tm_key_monitor_iteration l r inp w)))"
  by (cases "tm_key_monitor_iteration l r inp w") (simp split: sum.splits)

lemma tm_thread_not_running:
  "\<not> running w \<Longrightarrow> \<not> running (tm_key_monitor_thread l r inps w)"
  by (cases inps) simp_all

lemma tm_thread_idle:
  "running w \<Longrightarrow> current_key w = Some (tm_key_of s) \<Longrightarrow> s \<noteq> [CHR 0x03] \<Longrightarrow>
   \<exists>calls. tm_key_monitor_thread l r (replicate n (Some s) @ rest) w =
     tm_key_monitor_thread l r rest (w\<lparr>tty_calls := calls\<rparr>)"
proof (induction n arbitrary: w)
  case 0
  have "w\<lparr>tty_calls := tty_calls w\<rparr> = w" by simp
  then show ?case by (metis append_Nil replicate_0)
next
  case (Suc n)
  let ?w1 = "sampled (Some s) w"
  from Suc.prems have step: "tm_key_monitor_thread l r (replicate (Suc n) (Some s) @ rest) w =
      tm_key_monitor_thread l r (replicate n (Some s) @ rest) ?w1"
    by (simp add: tm_iteration_held)
  from Suc.prems have "running ?w1" "current_key ?w1 = Some (tm_key_of s)" by simp_all
  from Suc.IH [OF this Suc.prems(3)] obtain calls where
    "tm_key_monitor_thread l r (replicate n (Some s) @ rest) ?w1 =
       tm_key_monitor_thread l r rest (?w1\<lparr>tty_calls := calls\<rparr>)" by blast
  moreover have "?w1\<lparr>tty_calls := calls\<rparr> = w\<lparr>tty_calls := calls\<rparr>"
    by (simp add: sampled_def)
  ultimately show ?case using step by auto
qed

subsection \<open>One loop iteration of the key-control monitor\<close>

lemma kc_body_held:
  "current_key w = Some k \<Longrightarrow> kc_key_monitor_body (Some k) w = (Inr (), w)"
  by (simp add: kc_key_monitor_body_def)

lemma kc_body_pressed:
  "current_key w \<noteq> Some k \<Longrightarrow>
   kc_key_monitor_body (Some k) w =
     (Inr (),
      if k = ''1'' then logged ''ACTION: Moving forward'' (w\<lparr>current_key := Some k\<rparr>)
      else if k = ''2'' then logged ''ACTION: Moving backward'' (w\<lparr>current_key := Some k\<rparr>)
      else if str_lower k = ''q'' then
        (logged (CHR 0x0A # ''Quitting program...'') (w\<lparr>current_key := Some k\<rparr>))
          \<lparr>running := False\<rparr>
      else logged ''ACTION: Stopping (other key pressed)'' (w\<lparr>current_key := Some k\<rparr>))"
  by (auto simp add: kc_key_monitor_body_def seq_defs print_eq)

lemma kc_body_None:
  "kc_key_monitor_body None w =
     (Inr (),
      (if current_key w = Some ''1'' \<or> current_key w = Some ''2''
       then logged ''ACTION: Stopping (key released)'' w else w)\<lparr>current_key := None\<rparr>)"
  by (simp add: kc_key_monitor_body_def seq_defs print_eq)

lemma kc_iteration_eq:
  "kc_key_monitor_iteration inp w =
     (if inp = Some [CHR 0x03] then (Inl KeyboardInterrupt, sampled inp w)
      else kc_key_monitor_body inp (sampled inp w))"
  by (simp add: kc_key_monitor_iteration_def bind_io_def kc_getch_eq split: option.splits)

lemma kc_body_facts:
  "fst (kc_key_monitor_body key w) = Inr () \<and>
   current_key (snd (kc_key_monitor_body key w)) = key \<and>
   monitor (snd (kc_key_monitor_body key w)) = monitor w \<and>
   mainst (snd (kc_key_monitor_body key w)) = mainst w \<and>
   (\<not> running w \<longrightarrow> \<not> running (snd (kc_key_monitor_body key w)))"
proof (cases key)
  case None
  then show ?thesis by (simp add: kc_body_None)
next
  case (Some k)
  then show ?thesis
    by (cases "current_key w = Some k") (simp_all add: kc_body_held kc_body_pressed)
qed

lemma kc_body_trace:
  "\<exists>xs. trace (snd (kc_key_monitor_body key w)) = trace w @ xs \<and>
        count_list xs kc_release_msg =
          (if key = None \<and> (current_key w = Some ''1'' \<or> current_key w = Some ''2'')
           then 1 else 0)"
proof (cases key)
  case None
  then show ?thesis by (simp add: kc_body_None kc_release_msg_def)
next
  case (Some k)
  then show ?thesis
    by (cases "current_key w = Some k")
      (simp_all add: kc_body_held kc_body_pressed kc_release_msg_def)
qed

lemma kc_iteration_facts:
  "current_key (snd (kc_key_monitor_iteration inp w)) =
     (if inp = Some [CHR 0x03] then current_key w else inp) \<and>
   monitor (snd (kc_key_monitor_iteration inp w)) = monitor w \<and>
   mainst (snd (kc_key_monitor_iteration inp w)) = mainst w \<and>
   (\<not> running w \<longrightarrow> \<not> running (snd (kc_key_monitor_iteration inp w)))"
  using kc_body_facts [of inp "sampled inp w"] by (simp add: kc_iteration_eq)

lemma kc_iteration_fst:
  "fst (kc_key_monitor_iteration inp w) =
     (if inp = Some [CHR 0x03] then Inl KeyboardInterrupt else Inr ())"
  using kc_body_facts [of inp "sampled inp w"] by (simp add: kc_iteration_eq)

lemma kc_iteration_trace:
  "\<exists>xs. trace (snd (kc_key_monitor_iteration inp w)) = trace w @ xs \<and>
        count_list xs kc_release_msg =
          (if inp = None \<and> (current_key w = Some ''1'' \<or> current_key w = Some ''2'')
           then 1 else 0)"
proof (cases "inp = Some [CHR 0x03]")
  case True
  then show ?thesis by (simp add: kc_iteration_eq)
next
  case False
  with kc_body_trace [of inp "sampled inp w"] show ?thesis
    by (simp only: kc_iteration_eq if_False sampled_proj)
qed

lemma kc_iteration_held:
  "current_key w = Some s \<Longrightarrow> s \<noteq> [CHR 0x03] \<Longrightarrow>
   kc_key_monitor_iteration (Some s) w = (Inr (), sampled (Some s) w)"
  by (simp add: kc_iteration_eq kc_body_held)

lemma kc_thread_Cons:
  "running w \<Longrightarrow>
   kc_key_monitor_thread (inp # inps) w =
     (case fst (kc_key_monitor_iteration inp w) of
        Inl e \<Rightarrow> (snd (kc_key_monitor_iteration inp w))\<lparr>monitor := Died e\<rparr>
      | Inr u \<Rightarrow> kc_key_monitor_thread inps (snd (kc_key_monitor_iteration inp w)))"
  by (cases "kc_key_monitor_iteration inp w") (simp split: sum.splits)

lemma kc_thread_not_running:
  "\<not> running w \<Longrightarrow> \<not> running (kc_key_monitor_thread inps w)"
  by (cases inps) simp_all

lemma kc_thread_idle:
  "running w \<Longrightarrow> current_key w = Some s \<Longrightarrow> s \<noteq> [CHR 0x03] \<Longrightarrow>
   \<exists>calls. kc_key_monitor_thread (replicate n (Some s) @ rest) w =
     kc_key_monitor_thread rest (w\<lparr>tty_calls := calls\<rparr>)"
proof (induction n arbitrary: w)
  case 0
  have "w\<lparr>tty_calls := tty_calls w\<rparr> = w" by simp
  then show ?case by (metis append_Nil replicate_0)
next
  case (Suc n)
  let ?w1 = "sampled (Some s) w"
  from Suc.prems have step: "kc_key_monitor_thread (replicate (Suc n) (Some s) @ rest) w =
      kc_key_monitor_thread (replicate n (Some s) @ rest) ?w1"
    by (simp add: kc_iteration_held)
  from Suc.prems have "running ?w1" "current_key ?w1 = Some s" by simp_all
  from Suc.IH [OF this Suc.prems(3)] obtain calls where
    "kc_key_monitor_thread (replicate n (Some s) @ rest) ?w1 =
       kc_key_monitor_thread rest (?w1\<lparr>tty_calls := calls\<rparr>)" by blast
  moreover have "?w1\<lparr>tty_calls := calls\<rparr> = w\<lparr>tty_calls := calls\<rparr>"
    by (simp add: sampled_def)
  ultimately show ?case using step by auto
qed

subsection \<open>Main thread, signal handler, transitions\<close>

lemma tm_main_poll_eq:
  "tm_main_poll l r w =
     (if running w then w
      else (logged ''Program terminated.''
              (logged ''All motors stopped'' (set_vel r 0 (set_vel l 0 w))))
             \<lparr>mainst := Exited\<rparr>)"
  by (simp add: tm_main_poll_def seq_defs print_eq tm_stop_all_motors_eq)

lemma tm_signal_handler_eq:
  "tm_signal_handler w =
     (Inr (), (logged (CHR 0x0A # ''Ctrl+C detected. Exiting gracefully...'') w)
                \<lparr>running := False\<rparr>)"
  by (simp add: tm_signal_handler_def seq_defs print_eq)

lemma kc_main_poll_eq:
  "kc_main_poll w =
     (if running w then w else (logged ''Program terminated.'' w)\<lparr>mainst := Exited\<rparr>)"
  by (simp add: kc_main_poll_def print_eq)

lemma kc_signal_handler_eq:
  "kc_signal_handler w =
     (Inr (), (logged (CHR 0x0A # ''Ctrl+C detected. Exiting gracefully...'') w)
                \<lparr>running := False\<rparr>)"
  by (simp add: kc_signal_handler_def seq_defs print_eq)

lemma tm_turn_eq:
  "tm_turn_in_flight l r inp w =
     (case fst (tm_key_monitor_iteration l r inp w) of
        Inl e \<Rightarrow> (snd (tm_key_monitor_iteration l r inp w))\<lparr>monitor := Died e\<rparr>
      | Inr brk \<Rightarrow>
          if brk then (snd (tm_key_monitor_iteration l r inp w))\<lparr>monitor := Returned\<rparr>
          else (snd (tm_key_monitor_iteration l r inp w))\<lparr>monitor := Alive\<rparr>)"
  by (cases "tm_key_monitor_iteration l r inp w")
    (simp add: tm_turn_in_flight_def split: sum.splits)

lemma kc_turn_eq:
  "kc_turn_in_flight inp w =
     (case fst (kc_key_monitor_iteration inp w) of
        Inl e \<Rightarrow> (snd (kc_key_monitor_iteration inp w))\<lparr>monitor := Died e\<rparr>
      | Inr u \<Rightarrow> (snd (kc_key_monitor_iteration inp w))\<lparr>monitor := Alive\<rparr>)"
  by (cases "kc_key_monitor_iteration inp w")
    (simp add: kc_turn_in_flight_def split: sum.splits)

lemma tm_turn_not_running: "\<not> running w \<Longrightarrow> \<not> running (tm_turn_in_flight l r inp w)"
  by (simp add: tm_turn_eq tm_iteration_running split: sum.splits)

lemma kc_turn_not_running: "\<not> running w \<Longrightarrow> \<not> running (kc_turn_in_flight inp w)"
  using kc_iteration_facts [of inp w] by (simp add: kc_turn_eq split: sum.splits)

lemma tm_step_not_running: "\<not> running w \<Longrightarrow> \<not> running (tm_step ev w)"
  by (cases ev)
    (simp_all add: tm_step_def tm_main_poll_eq tm_signal_handler_eq tm_turn_not_running
      tm_stop_all_motors_eq print_eq)

lemma kc_step_not_running: "\<not> running w \<Longrightarrow> \<not> running (kc_step ev w)"
  by (cases ev)
    (simp_all add: kc_step_def kc_main_poll_eq kc_signal_handler_eq kc_turn_not_running
      print_eq)

lemma tm_run_not_running: "\<not> running w \<Longrightarrow> \<not> running (tm_run evs w)"
  by (induction evs arbitrary: w) (simp_all add: tm_step_not_running)

lemma kc_run_not_running: "\<not> running w \<Longrightarrow> \<not> running (kc_run evs w)"
  by (induction evs arbitrary: w) (simp_all add: kc_step_not_running)

subsection \<open>Whole turns and whole polls\<close>

lemma monitor_update_commutes:
  "logged s (w\<lparr>monitor := m\<rparr>) = (logged s w)\<lparr>monitor := m\<rparr>"
  "set_vel ax v (w\<lparr>monitor := m\<rparr>) = (set_vel ax v w)\<lparr>monitor := m\<rparr>"
  "sampled inp (w\<lparr>monitor := m\<rparr>) = (sampled inp w)\<lparr>monitor := m\<rparr>"
  by (simp_all add: logged_def set_vel_def sampled_def get_axis_def put_axis_def
      split: option.splits axis_ref.splits)

lemma tm_handle_monitor:
  "tm_handle_motor_control k l r (w\<lparr>monitor := m\<rparr>) =
     (fst (tm_handle_motor_control k l r w),
      (snd (tm_handle_motor_control k l r w))\<lparr>monitor := m\<rparr>)"
  by (simp add: tm_handle_unfold monitor_update_commutes)

lemma tm_body_monitor:
  "tm_key_monitor_body l r key (w\<lparr>monitor := m\<rparr>) =
     (fst (tm_key_monitor_body l r key w),
      (snd (tm_key_monitor_body l r key w))\<lparr>monitor := m\<rparr>)"
proof (cases key)
  case None
  then show ?thesis by (simp add: tm_body_None monitor_update_commutes)
next
  case (Some k)
  show ?thesis
  proof (cases "current_key w = Some k")
    case True
    with Some show ?thesis by (simp add: tm_body_held)
  next
    case False
    then have nk: "current_key (w\<lparr>monitor := m\<rparr>) \<noteq> Some k" by simp
    have sw: "(w\<lparr>monitor := m\<rparr>)\<lparr>current_key := Some k\<rparr> =
        (w\<lparr>current_key := Some k\<rparr>)\<lparr>monitor := m\<rparr>"
      by simp
    show ?thesis
      unfolding Some tm_body_pressed [OF nk] tm_body_pressed [OF False] sw tm_handle_monitor
      by simp
  qed
qed

lemma tm_iteration_monitor:
  "tm_key_monitor_iteration l r inp (w\<lparr>monitor := m\<rparr>) =
     (fst (tm_key_monitor_iteration l r inp w),
      (snd (tm_key_monitor_iteration l r inp w))\<lparr>monitor := m\<rparr>)"
  by (simp add: tm_iteration_eq monitor_update_commutes tm_body_monitor split: option.splits)

lemma kc_body_monitor:
  "kc_key_monitor_body key (w\<lparr>monitor := m\<rparr>) =
     (fst (kc_key_monitor_body key w), (snd (kc_key_monitor_body key w))\<lparr>monitor := m\<rparr>)"
proof (cases key)
  case None
  then show ?thesis by (simp add: kc_body_None monitor_update_commutes)
next
  case (Some k)
  then show ?thesis
    by (cases "current_key w = Some k")
      (simp_all add: kc_body_held kc_body_pressed logged_def)
qed

lemma kc_iteration_monitor:
  "kc_key_monitor_iteration inp (w\<lparr>monitor := m\<rparr>) =
     (fst (kc_key_monitor_iteration inp w),
      (snd (kc_key_monitor_iteration inp w))\<lparr>monitor := m\<rparr>)"
  by (simp add: kc_iteration_eq monitor_update_commutes kc_body_monitor)

text \<open>
  A whole turn is the loop-head test followed at once by the turn in flight, and a
  whole poll that finds \<open>running\<close> false is the stop of the motors followed at once
  by the end of the \<open>finally\<close> block.
\<close>

lemma tm_sample_is_test_then_turn:
  assumes "monitor w = Alive"
  shows "tm_run [LoopTest, Turn inp] w = tm_step (Sample inp) w"
proof (cases "mainst w = Exited")
  case True
  then show ?thesis by (simp add: tm_step_def)
next
  case False
  show ?thesis
  proof (cases "running w")
    case r: False
    with False assms show ?thesis by (simp add: tm_step_def)
  next
    case r: True
    have keep: "(snd (tm_key_monitor_iteration l r inp w))\<lparr>monitor := Alive\<rparr> =
        snd (tm_key_monitor_iteration l r inp w)" for l r
      using assms tm_iteration_threads [of l r inp w] by simp
    from False assms r show ?thesis
      by (simp add: tm_step_def tm_turn_eq tm_iteration_monitor tm_thread_Cons keep
          del: tm_key_monitor_thread.simps(2) split: sum.splits)
  qed
qed

lemma kc_sample_is_test_then_turn:
  assumes "monitor w = Alive"
  shows "kc_run [LoopTest, Turn inp] w = kc_step (Sample inp) w"
proof (cases "mainst w = Exited")
  case True
  then show ?thesis by (simp add: kc_step_def)
next
  case False
  show ?thesis
  proof (cases "running w")
    case r: False
    with False assms show ?thesis by (simp add: kc_step_def)
  next
    case r: True
    have keep: "(snd (kc_key_monitor_iteration inp w))\<lparr>monitor := Alive\<rparr> =
        snd (kc_key_monitor_iteration inp w)"
      using assms kc_iteration_facts [of inp w] by simp
    from False assms r show ?thesis
      by (simp add: kc_step_def kc_turn_eq kc_iteration_monitor kc_thread_Cons keep
          del: kc_key_monitor_thread.simps(2) split: sum.splits)
  qed
qed

lemma tm_poll_is_stop_then_end:
  "mainst w = Waiting \<Longrightarrow> \<not> running w \<Longrightarrow>
   tm_run [MainStop, MainEnd] w = tm_step MainPoll w"
  by (simp add: tm_step_def tm_main_poll_eq tm_stop_all_motors_eq print_eq logged_def)

lemma kc_poll_is_stop_then_end:
  "mainst w = Waiting \<Longrightarrow> \<not> running w \<Longrightarrow>
   kc_run [MainStop, MainEnd] w = kc_step MainPoll w"
  by (simp add: kc_step_def kc_main_poll_eq print_eq logged_def)

subsection \<open>What the dispatcher does for each key\<close>

lemma set_vel_axes [simp]:
  "axis0 (set_vel ax v w) =
     (if ax = Axis0 \<and> fault (axis0 w) = None then (axis0 w)\<lparr>input_vel := v\<rparr> else axis0 w)"
  "axis1 (set_vel ax v w) =
     (if ax = Axis1 \<and> fault (axis1 w) = None then (axis1 w)\<lparr>input_vel := v\<rparr> else axis1 w)"
  by (cases ax; simp add: set_vel_def get_axis_def put_axis_def split: option.splits)+

lemmas tm_handle_eval = tm_handle_unfold tm_key_name_def tm_key_name_table_def VELOCITY_def

lemma tm_handle_keys:
  "tm_handle_motor_control ''1'' l r w =
     (Inr True, set_vel l 1 (logged ''Command: Left motor forward'' w))"
  "tm_handle_motor_control ''2'' l r w =
     (Inr True, set_vel l (- 1) (logged ''Command: Left motor backward'' w))"
  "tm_handle_motor_control ''3'' l r w =
     (Inr True, set_vel r 1 (logged ''Command: Right motor forward'' w))"
  "tm_handle_motor_control ''4'' l r w =
     (Inr True, set_vel r (- 1) (logged ''Command: Right motor backward'' w))"
  "tm_handle_motor_control ''w'' l r w =
     (Inr True, set_vel r 1 (set_vel l 1 (logged ''Command: Both motors forward'' w)))"
  "tm_handle_motor_control ''s'' l r w =
     (Inr True, set_vel r (- 1) (set_vel l (- 1) (logged ''Command: Both motors backward'' w)))"
  "tm_handle_motor_control ''a'' l r w =
     (Inr True, set_vel l 0 (set_vel r 1 (logged ''Command: Right motor forward'' w)))"
  "tm_handle_motor_control ''d'' l r w =
     (Inr True, set_vel r 0 (set_vel l 1 (logged ''Command: Left motor forward'' w)))"
  "tm_handle_motor_control ''q'' l r w =
     (Inr True,
      set_vel r 1 (set_vel l (- 1)
        (logged ''Command: Left motor backward, right motor forward'' w)))"
  "tm_handle_motor_control ''e'' l r w =
     (Inr True,
      set_vel l 1 (set_vel r (- 1)
        (logged ''Command: Right motor backward, left motor forward'' w)))"
  "tm_handle_motor_control ''x'' l r w =
     (Inr True,
      logged ''All motors stopped'' (set_vel r 0 (set_vel l 0
        (logged ''Command: Stop all motors'' w))))"
  "tm_handle_motor_control ''esc'' l r w = (Inr False, logged ''Command: Quit program'' w)"
  by (simp_all add: tm_handle_eval)

lemma tm_handle_unknown:
  "k \<notin> set (map fst tm_key_name_table) \<Longrightarrow>
   tm_handle_motor_control k l r w = (Inr True, logged ''Command: Unknown key'' w)"
  by (simp add: tm_handle_eval)

lemmas world_eval =
  tm_started_def kc_started_def ow_started_def idle_axis_def broken_axis_def cooked_def
  LEFT_MOTOR_INDEX_def RIGHT_MOTOR_INDEX_def MOTOR_INDEX_def get_axis_def

lemma tm_holding_eq:
  "k \<noteq> [CHR 0x03] \<Longrightarrow> tm_key_of k \<noteq> ''esc'' \<Longrightarrow>
   tm_holding k =
     snd (tm_handle_motor_control (tm_key_of k) LEFT_MOTOR_INDEX RIGHT_MOTOR_INDEX
            ((sampled (Some k) (tm_started idle_axis idle_axis cooked))
               \<lparr>current_key := Some (tm_key_of k)\<rparr>))"
  by (simp add: tm_holding_def tm_iteration_eq tm_body_pressed tm_started_def)

lemma tm_holding_facts:
  "running (tm_holding ''1'')"
  "current_key (tm_holding ''1'') = Some ''1''"
  "monitor (tm_holding ''1'') = Alive"
  "mainst (tm_holding ''1'') = Waiting"
  "running (tm_holding ''w'')"
  "current_key (tm_holding ''w'') = Some ''w''"
  "monitor (tm_holding ''w'') = Alive"
  "mainst (tm_holding ''w'') = Waiting"
  by (simp_all add: tm_holding_eq tm_key_of_def tm_handle_frame tm_started_def)

subsection \<open>SIGINT and the clean-up inside a loop turn\<close>

text \<open>
  A loop turn that has passed its test of \<open>running\<close> still samples and runs its locked
  block after SIGINT has cleared the flag and the main thread has stopped the motors.
  With \<open>'1'\<close> held and nothing sampled, the release follows \<open>All motors stopped\<close>;
  with \<open>'w'\<close> sampled, both motors are commanded forward after the stop and the process
  ends with both set-points at +1. In the key-control script the turn in flight prints
  its action after the handler's message.
\<close>

lemma tm_release_after_cleanup:
  "trace (tm_run [Sample (Some ''1''), LoopTest, Sigint, MainStop, Turn None, MainEnd]
      (tm_started idle_axis idle_axis cooked)) =
     [Print ''Command: Left motor forward'', InputVel Axis0 1,
      Print (CHR 0x0A # ''Ctrl+C detected. Exiting gracefully...''),
      InputVel Axis0 0, InputVel Axis1 0, Print ''All motors stopped'',
      Print ''Keys released, stopping all motors'',
      InputVel Axis0 0, InputVel Axis1 0, Print ''All motors stopped'',
      Print ''Program terminated.''] \<and>
   mainst (tm_run [Sample (Some ''1''), LoopTest, Sigint, MainStop, Turn None, MainEnd]
      (tm_started idle_axis idle_axis cooked)) = Exited"
  by (simp add: tm_step_def tm_turn_eq tm_iteration_eq tm_key_of_def tm_body_pressed
      tm_body_None tm_handle_keys tm_stop_all_motors_eq tm_signal_handler_eq print_eq
      world_eval)

lemma tm_command_after_cleanup:
  "commands (trace (tm_run [LoopTest, Sigint, MainStop, Turn (Some ''w''), MainEnd]
      (tm_started idle_axis idle_axis cooked))) =
     [InputVel Axis0 0, InputVel Axis1 0, InputVel Axis0 1, InputVel Axis1 1] \<and>
   mainst (tm_run [LoopTest, Sigint, MainStop, Turn (Some ''w''), MainEnd]
      (tm_started idle_axis idle_axis cooked)) = Exited \<and>
   input_vel (axis0 (tm_run [LoopTest, Sigint, MainStop, Turn (Some ''w''), MainEnd]
      (tm_started idle_axis idle_axis cooked))) = 1 \<and>
   input_vel (axis1 (tm_run [LoopTest, Sigint, MainStop, Turn (Some ''w''), MainEnd]
      (tm_started idle_axis idle_axis cooked))) = 1"
  by (simp add: tm_step_def tm_turn_eq tm_iteration_eq tm_key_of_def tm_body_pressed
      tm_handle_keys tm_stop_all_motors_eq tm_signal_handler_eq print_eq world_eval)

lemma kc_action_after_sigint:
  "trace (kc_run [LoopTest, Sigint, Turn (Some ''1''), MainPoll] (kc_started cooked)) =
     [Print (CHR 0x0A # ''Ctrl+C detected. Exiting gracefully...''),
      Print ''ACTION: Moving forward'', Print ''Program terminated.''] \<and>
   mainst (kc_run [LoopTest, Sigint, Turn (Some ''1''), MainPoll] (kc_started cooked)) = Exited"
  by (simp add: kc_step_def kc_turn_eq kc_iteration_eq kc_body_pressed kc_signal_handler_eq
      kc_main_poll_eq kc_started_def)

subsection \<open>Scenario B\<close>

text \<open>
  Claim C7. In the two-motor script, from a state in which no key is held, sampling
  \<open>'w'\<close> and then nothing makes the monitor thread issue exactly the velocity writes
  left := +1, right := +1, left := 0, right := 0, in this order (a stop is the write
  of velocity 0, which is all \<open>stop_motor\<close> does).
\<close>

theorem scenario_w_then_none:
  assumes "current_key w = None" and "running w"
  shows "commands (emitted w
           (tm_key_monitor_thread LEFT_MOTOR_INDEX RIGHT_MOTOR_INDEX [Some ''w'', None] w)) =
         [InputVel LEFT_MOTOR_INDEX VELOCITY, InputVel RIGHT_MOTOR_INDEX VELOCITY,
          InputVel LEFT_MOTOR_INDEX 0, InputVel RIGHT_MOTOR_INDEX 0]"
  using assms
  by (simp add: tm_iteration_eq tm_key_of_def tm_body_pressed tm_body_None tm_handle_keys
      emitted_def VELOCITY_def)

theorem scenario_w_then_none_witness:
  "current_key (tm_started idle_axis idle_axis cooked) = None \<and>
   running (tm_started idle_axis idle_axis cooked) \<and>
   commands (emitted (tm_started idle_axis idle_axis cooked)
     (tm_key_monitor_thread LEFT_MOTOR_INDEX RIGHT_MOTOR_INDEX [Some ''w'', None]
        (tm_started idle_axis idle_axis cooked))) =
   [InputVel LEFT_MOTOR_INDEX VELOCITY, InputVel RIGHT_MOTOR_INDEX VELOCITY,
    InputVel LEFT_MOTOR_INDEX 0, InputVel RIGHT_MOTOR_INDEX 0]"
proof -
  have h1: "current_key (tm_started idle_axis idle_axis cooked) = None"
    by (simp add: tm_started_def)
  have h2: "running (tm_started idle_axis idle_axis cooked)"
    by (simp add: tm_started_def)
  from h1 h2 scenario_w_then_none [OF h1 h2] show ?thesis by simp
qed

subsection \<open>Single-axis keys\<close>

text \<open>
  Claim C10. In the two-motor dispatcher the keys \<open>'1'\<close> and \<open>'2'\<close> write the left
  axis only and leave the right axis object as it is; \<open>'3'\<close> and \<open>'4'\<close> write the
  right axis only and leave the left axis as it is. So when \<open>'3'\<close> is sampled while
  \<open>'1'\<close> is held, the only command is right := +1 and the left axis keeps its
  set-point; from the start, \<open>'1'\<close> then \<open>'3'\<close> leaves the left motor at +1 with no
  write of 0 in between.
\<close>

theorem single_axis_key_leaves_other_axis:
  "(k = ''1'' \<or> k = ''2'' \<longrightarrow>
      commands (emitted w
        (snd (tm_handle_motor_control k LEFT_MOTOR_INDEX RIGHT_MOTOR_INDEX w))) =
        [InputVel LEFT_MOTOR_INDEX (if k = ''1'' then VELOCITY else - VELOCITY)] \<and>
      get_axis RIGHT_MOTOR_INDEX
        (snd (tm_handle_motor_control k LEFT_MOTOR_INDEX RIGHT_MOTOR_INDEX w)) =
        get_axis RIGHT_MOTOR_INDEX w) \<and>
   (k = ''3'' \<or> k = ''4'' \<longrightarrow>
      commands (emitted w
        (snd (tm_handle_motor_control k LEFT_MOTOR_INDEX RIGHT_MOTOR_INDEX w))) =
        [InputVel RIGHT_MOTOR_INDEX (if k = ''3'' then VELOCITY else - VELOCITY)] \<and>
      get_axis LEFT_MOTOR_INDEX
        (snd (tm_handle_motor_control k LEFT_MOTOR_INDEX RIGHT_MOTOR_INDEX w)) =
        get_axis LEFT_MOTOR_INDEX w) \<and>
   (running w \<and> current_key w = Some ''1'' \<longrightarrow>
      current_key (tm_key_monitor_thread LEFT_MOTOR_INDEX RIGHT_MOTOR_INDEX [Some ''3''] w) =
        Some ''3'' \<and>
      commands (emitted w
        (tm_key_monitor_thread LEFT_MOTOR_INDEX RIGHT_MOTOR_INDEX [Some ''3''] w)) =
        [InputVel RIGHT_MOTOR_INDEX VELOCITY] \<and>
      get_axis LEFT_MOTOR_INDEX
        (tm_key_monitor_thread LEFT_MOTOR_INDEX RIGHT_MOTOR_INDEX [Some ''3''] w) =
        get_axis LEFT_MOTOR_INDEX w) \<and>
   (fault a0 = None \<longrightarrow>
      input_vel (get_axis LEFT_MOTOR_INDEX
        (tm_key_monitor_thread LEFT_MOTOR_INDEX RIGHT_MOTOR_INDEX [Some ''1'', Some ''3'']
           (tm_started a0 a1 attrs))) = VELOCITY \<and>
      commands (trace
        (tm_key_monitor_thread LEFT_MOTOR_INDEX RIGHT_MOTOR_INDEX [Some ''1'', Some ''3'']
           (tm_started a0 a1 attrs))) =
        [InputVel LEFT_MOTOR_INDEX VELOCITY, InputVel RIGHT_MOTOR_INDEX VELOCITY])"
proof -
  have other: "get_axis Axis1 (set_vel Axis0 v u) = get_axis Axis1 u"
    "get_axis Axis0 (set_vel Axis1 v u) = get_axis Axis0 u" for v u
    by (simp_all add: set_vel_other_axis)
  have a: "k = ''1'' \<or> k = ''2'' \<longrightarrow>
      commands (emitted w
        (snd (tm_handle_motor_control k LEFT_MOTOR_INDEX RIGHT_MOTOR_INDEX w))) =
        [InputVel LEFT_MOTOR_INDEX (if k = ''1'' then VELOCITY else - VELOCITY)] \<and>
      get_axis RIGHT_MOTOR_INDEX
        (snd (tm_handle_motor_control k LEFT_MOTOR_INDEX RIGHT_MOTOR_INDEX w)) =
        get_axis RIGHT_MOTOR_INDEX w"
    by (auto simp add: tm_handle_keys emitted_def VELOCITY_def other LEFT_MOTOR_INDEX_def
        RIGHT_MOTOR_INDEX_def)
  have b: "k = ''3'' \<or> k = ''4'' \<longrightarrow>
      commands (emitted w
        (snd (tm_handle_motor_control k LEFT_MOTOR_INDEX RIGHT_MOTOR_INDEX w))) =
        [InputVel RIGHT_MOTOR_INDEX (if k = ''3'' then VELOCITY else - VELOCITY)] \<and>
      get_axis LEFT_MOTOR_INDEX
        (snd (tm_handle_motor_control k LEFT_MOTOR_INDEX RIGHT_MOTOR_INDEX w)) =
        get_axis LEFT_MOTOR_INDEX w"
    by (auto simp add: tm_handle_keys emitted_def VELOCITY_def other LEFT_MOTOR_INDEX_def
        RIGHT_MOTOR_INDEX_def)
  have c: "running w \<and> current_key w = Some ''1'' \<longrightarrow>
      current_key (tm_key_monitor_thread LEFT_MOTOR_INDEX RIGHT_MOTOR_INDEX [Some ''3''] w) =
        Some ''3'' \<and>
      commands (emitted w
        (tm_key_monitor_thread LEFT_MOTOR_INDEX RIGHT_MOTOR_INDEX [Some ''3''] w)) =
        [InputVel RIGHT_MOTOR_INDEX VELOCITY] \<and>
      get_axis LEFT_MOTOR_INDEX
        (tm_key_monitor_thread LEFT_MOTOR_INDEX RIGHT_MOTOR_INDEX [Some ''3''] w) =
        get_axis LEFT_MOTOR_INDEX w"
    by (simp add: tm_iteration_eq tm_key_of_def tm_body_pressed tm_handle_keys emitted_def
        VELOCITY_def other LEFT_MOTOR_INDEX_def RIGHT_MOTOR_INDEX_def)
  have d: "fault a0 = None \<longrightarrow>
      input_vel (get_axis LEFT_MOTOR_INDEX
        (tm_key_monitor_thread LEFT_MOTOR_INDEX RIGHT_MOTOR_INDEX [Some ''1'', Some ''3'']
           (tm_started a0 a1 attrs))) = VELOCITY \<and>
      commands (trace
        (tm_key_monitor_thread LEFT_MOTOR_INDEX RIGHT_MOTOR_INDEX [Some ''1'', Some ''3'']
           (tm_started a0 a1 attrs))) =
        [InputVel LEFT_MOTOR_INDEX VELOCITY, InputVel RIGHT_MOTOR_INDEX VELOCITY]"
    by (simp add: tm_iteration_eq tm_key_of_def tm_body_pressed tm_handle_keys
        VELOCITY_def LEFT_MOTOR_INDEX_def RIGHT_MOTOR_INDEX_def tm_started_def get_axis_def)
  from a b c d show ?thesis by blast
qed

theorem single_axis_key_leaves_other_axis_witness:
  "running (tm_holding ''1'') \<and> current_key (tm_holding ''1'') = Some ''1'' \<and>
   fault idle_axis = None \<and>
   commands (emitted (tm_holding ''1'')
     (snd (tm_handle_motor_control ''3'' LEFT_MOTOR_INDEX RIGHT_MOTOR_INDEX (tm_holding ''1'')))) =
     [InputVel RIGHT_MOTOR_INDEX VELOCITY] \<and>
   get_axis LEFT_MOTOR_INDEX
     (snd (tm_handle_motor_control ''3'' LEFT_MOTOR_INDEX RIGHT_MOTOR_INDEX (tm_holding ''1''))) =
     get_axis LEFT_MOTOR_INDEX (tm_holding ''1'') \<and>
   current_key (tm_key_monitor_thread LEFT_MOTOR_INDEX RIGHT_MOTOR_INDEX [Some ''3'']
     (tm_holding ''1'')) = Some ''3'' \<and>
   commands (emitted (tm_holding ''1'')
     (tm_key_monitor_thread LEFT_MOTOR_INDEX RIGHT_MOTOR_INDEX [Some ''3''] (tm_holding ''1''))) =
     [InputVel RIGHT_MOTOR_INDEX VELOCITY] \<and>
   input_vel (get_axis LEFT_MOTOR_INDEX
     (tm_key_monitor_thread LEFT_MOTOR_INDEX RIGHT_MOTOR_INDEX [Some ''1'', Some ''3'']
        (tm_started idle_axis idle_axis cooked))) = VELOCITY \<and>
   commands (trace
     (tm_key_monitor_thread LEFT_MOTOR_INDEX RIGHT_MOTOR_INDEX [Some ''1'', Some ''3'']
        (tm_started idle_axis idle_axis cooked))) =
     [InputVel LEFT_MOTOR_INDEX VELOCITY, InputVel RIGHT_MOTOR_INDEX VELOCITY]"
proof -
  have h: "running (tm_holding ''1'') \<and> current_key (tm_holding ''1'') = Some ''1''"
    by (simp add: tm_holding_facts)
  have f: "fault idle_axis = None" by (simp add: idle_axis_def)
  from h f
    single_axis_key_leaves_other_axis [of "''3''" "tm_holding ''1''" idle_axis idle_axis cooked]
  show ?thesis by simp
qed

subsection \<open>The run flag\<close>

text \<open>
  Claim C8. \<open>running\<close> is true when the threads start (both sampling scripts), and
  once it is false it stays false: through every sequence of transitions of the
  process (sampling turns of the monitor with any input, polls of the main thread,
  SIGINT), and through each operation on its own - the signal handler, the dispatcher,
  the locked block of the monitor, the monitor thread on any inputs.
\<close>

theorem running_is_one_way_latch:
  "running (tm_started a0 a1 attrs) \<and> running (kc_started attrs) \<and>
   (\<not> running w \<longrightarrow>
      \<not> running (tm_run evs w) \<and> \<not> running (kc_run evs w) \<and>
      \<not> running (snd (tm_signal_handler w)) \<and> \<not> running (snd (kc_signal_handler w)) \<and>
      \<not> running (snd (tm_handle_motor_control k l r w)) \<and>
      \<not> running (snd (tm_key_monitor_body l r key w)) \<and>
      \<not> running (snd (kc_key_monitor_body key w)) \<and>
      \<not> running (tm_key_monitor_thread l r inps w) \<and>
      \<not> running (kc_key_monitor_thread inps w))"
  using kc_body_facts [of key w]
  by (simp add: tm_started_def kc_started_def tm_run_not_running kc_run_not_running
      tm_signal_handler_eq kc_signal_handler_eq tm_handle_frame tm_body_running
      tm_thread_not_running kc_thread_not_running)

theorem running_is_one_way_latch_witness:
  "\<not> running (tm_step Sigint (tm_started idle_axis idle_axis cooked)) \<and>
   \<not> running (tm_run [Sample (Some ''1''), MainPoll, Sample None, Sigint]
                 (tm_step Sigint (tm_started idle_axis idle_axis cooked))) \<and>
   \<not> running (kc_run [Sample (Some ''1''), MainPoll, Sample None, Sigint]
                 (tm_step Sigint (tm_started idle_axis idle_axis cooked))) \<and>
   \<not> running (tm_key_monitor_thread Axis0 Axis1 [Some ''w'', None]
                 (tm_step Sigint (tm_started idle_axis idle_axis cooked)))"
proof -
  have h: "\<not> running (tm_step Sigint (tm_started idle_axis idle_axis cooked))"
    by (simp add: tm_step_def tm_signal_handler_eq tm_started_def)
  from h running_is_one_way_latch
    [of idle_axis idle_axis cooked "tm_step Sigint (tm_started idle_axis idle_axis cooked)"
        "[Sample (Some ''1''), MainPoll, Sample None, Sigint]" "''1''" Axis0 Axis1 None
        "[Some ''w'', None]"]
  show ?thesis by blast
qed

subsection \<open>The interrupt byte\<close>

text \<open>
  What the two-motor process does when the sampler reads the byte 0x03, in any state
  in which the monitor runs: \<open>KeyboardInterrupt\<close> leaves \<open>key_monitor_thread\<close>, the
  thread dies, \<open>running\<close> stays true, nothing is written to an axis, and the main
  thread keeps waiting however often it polls.
\<close>

lemma tm_interrupt_sampled:
  assumes "running w" and "monitor w = Alive" and "mainst w = Waiting"
  shows "tm_run (Sample (Some [CHR 0x03]) # replicate n MainPoll) w =
           (sampled (Some [CHR 0x03]) w)\<lparr>monitor := Died KeyboardInterrupt\<rparr>"
proof -
  let ?w1 = "(sampled (Some [CHR 0x03]) w)\<lparr>monitor := Died KeyboardInterrupt\<rparr>"
  from assms have first: "tm_step (Sample (Some [CHR 0x03])) w = ?w1"
    by (simp add: tm_step_def tm_iteration_eq)
  have polls: "tm_run (replicate m MainPoll) ?w1 = ?w1" for m
    using assms by (induction m) (simp_all add: tm_step_def tm_main_poll_eq)
  from first polls show ?thesis by simp
qed

text \<open>
  Claim C1, at a concrete run. The left motor is started with \<open>'1'\<close>, then the byte
  0x03 is sampled, then the main thread polls twice: the monitor thread has died, the
  run flag is still true, the main thread still waits, the terminal is back in its
  mode, and the only command ever issued is left := +1, so the left motor keeps
  running. The sibling path, SIGINT in place of the byte, does stop: the handler
  clears the flag and the next poll of the main thread stops both motors and ends.
\<close>

theorem interrupt_byte_issues_no_stop:
  "monitor (tm_run [Sample (Some ''1''), Sample (Some [CHR 0x03]), MainPoll, MainPoll]
      (tm_started idle_axis idle_axis cooked)) = Died KeyboardInterrupt \<and>
   running (tm_run [Sample (Some ''1''), Sample (Some [CHR 0x03]), MainPoll, MainPoll]
      (tm_started idle_axis idle_axis cooked)) \<and>
   mainst (tm_run [Sample (Some ''1''), Sample (Some [CHR 0x03]), MainPoll, MainPoll]
      (tm_started idle_axis idle_axis cooked)) = Waiting \<and>
   tty_attrs (tm_run [Sample (Some ''1''), Sample (Some [CHR 0x03]), MainPoll, MainPoll]
      (tm_started idle_axis idle_axis cooked)) = cooked \<and>
   trace (tm_run [Sample (Some ''1''), Sample (Some [CHR 0x03]), MainPoll, MainPoll]
      (tm_started idle_axis idle_axis cooked)) =
     [Print ''Command: Left motor forward'', InputVel Axis0 1] \<and>
   input_vel (axis0 (tm_run [Sample (Some ''1''), Sample (Some [CHR 0x03]), MainPoll, MainPoll]
      (tm_started idle_axis idle_axis cooked))) = 1 \<and>
   commands (trace (tm_run [Sample (Some ''1''), Sigint, MainPoll]
      (tm_started idle_axis idle_axis cooked))) =
     [InputVel Axis0 1, InputVel Axis0 0, InputVel Axis1 0] \<and>
   mainst (tm_run [Sample (Some ''1''), Sigint, MainPoll]
      (tm_started idle_axis idle_axis cooked)) = Exited"
  by (simp add: tm_step_def tm_iteration_eq tm_key_of_def tm_body_pressed tm_handle_keys
      tm_main_poll_eq tm_signal_handler_eq world_eval)

subsection \<open>The one-wheel script\<close>

lemma ow_set_velocity_eq:
  "ow_set_velocity ax v w =
     (Inr (),
      case fault (get_axis ax w) of
        None \<Rightarrow> logged (''Velocity set to: '' @ str_int v @ '' counts/s'') (set_vel ax v w)
      | Some msg \<Rightarrow> set_vel ax v w)"
  by (simp add: ow_set_velocity_def write_input_vel_def try_except_def seq_defs print_def
      set_vel_def logged_def put_axis_def split: option.splits axis_ref.splits)

lemma ow_stop_motor_eq:
  "ow_stop_motor ax w = (Inr (), snd (ow_set_velocity ax 0 (logged ''Stopping motor...'' w)))"
  by (simp add: ow_stop_motor_def try_except_def seq_defs print_eq ow_set_velocity_eq)

lemma str_lower_digits:
  "str_lower ''1'' \<noteq> ''q''" "str_lower ''2'' \<noteq> ''q''" "str_lower ''0'' \<noteq> ''q''"
  "str_lower ''q'' = ''q''" "str_lower ''Q'' = ''q''" "str_lower ''z'' \<noteq> ''q''"
  by code_simp+

lemma ow_command_fst: "fst (ow_command ax u w) = Inr (str_lower u = ''q'')"
  by (simp add: ow_command_def seq_defs print_eq ow_set_velocity_eq ow_stop_motor_eq
      str_lower_digits)

lemma ow_command_quit:
  "str_lower u = ''q'' \<Longrightarrow>
   ow_command ax u w =
     (Inr True,
      logged ''Exiting program...'' (snd (ow_set_velocity ax 0 (logged ''Stopping motor...'' w))))"
  using str_lower_digits
  by (auto simp add: ow_command_def seq_defs print_eq ow_stop_motor_eq)

subsection \<open>Actuator failures\<close>

text \<open>
  Claim C9. When the link to an axis is down, a velocity command or a stop on that
  axis (two-motor and one-wheel scripts) returns normally: the failure is printed,
  the world is otherwise as before, so the set-point is not changed. With any state of
  the links no command call raises; a sampling turn of the two-motor monitor on
  anything but the interrupt byte and Escape leaves the thread in its loop with
  \<open>running\<close> true, and a one-wheel command other than quit stays in its loop.
\<close>

theorem actuator_failure_is_not_fatal:
  "(fault (get_axis ax w) = Some msg \<longrightarrow>
      tm_set_motor_velocity ax v w =
        (Inr (), w\<lparr>trace := trace w @
           [InputVel ax v, Print (''Failed to set velocity: '' @ msg)]\<rparr>) \<and>
      tm_stop_motor ax w =
        (Inr (), w\<lparr>trace := trace w @
           [InputVel ax 0, Print (''Failed to set velocity: '' @ msg)]\<rparr>) \<and>
      ow_set_velocity ax v w =
        (Inr (), w\<lparr>trace := trace w @
           [InputVel ax v, Print (''Failed to set velocity: '' @ msg)]\<rparr>) \<and>
      ow_stop_motor ax w =
        (Inr (), w\<lparr>trace := trace w @
           [Print ''Stopping motor...'', InputVel ax 0,
            Print (''Failed to set velocity: '' @ msg)]\<rparr>)) \<and>
   fst (tm_set_motor_velocity ax v w) = Inr () \<and>
   fst (tm_stop_motor ax w) = Inr () \<and>
   fst (tm_stop_all_motors l r w) = Inr () \<and>
   fst (tm_handle_motor_control k l r w) = Inr (k \<noteq> ''esc'') \<and>
   fst (ow_set_velocity ax v w) = Inr () \<and>
   fst (ow_stop_motor ax w) = Inr () \<and>
   (running w \<and> inp \<noteq> Some [CHR 0x03] \<and> inp \<noteq> Some [CHR 0x1B] \<and> inp \<noteq> Some ''esc'' \<longrightarrow>
      running (tm_key_monitor_thread l r [inp] w) \<and>
      monitor (tm_key_monitor_thread l r [inp] w) = monitor w) \<and>
   (str_lower u \<noteq> ''q'' \<longrightarrow> fst (ow_command ax u w) = Inr False)"
proof -
  have a: "fault (get_axis ax w) = Some msg \<longrightarrow>
      tm_set_motor_velocity ax v w =
        (Inr (), w\<lparr>trace := trace w @
           [InputVel ax v, Print (''Failed to set velocity: '' @ msg)]\<rparr>) \<and>
      tm_stop_motor ax w =
        (Inr (), w\<lparr>trace := trace w @
           [InputVel ax 0, Print (''Failed to set velocity: '' @ msg)]\<rparr>) \<and>
      ow_set_velocity ax v w =
        (Inr (), w\<lparr>trace := trace w @
           [InputVel ax v, Print (''Failed to set velocity: '' @ msg)]\<rparr>) \<and>
      ow_stop_motor ax w =
        (Inr (), w\<lparr>trace := trace w @
           [Print ''Stopping motor...'', InputVel ax 0,
            Print (''Failed to set velocity: '' @ msg)]\<rparr>)"
    by (simp add: tm_set_motor_velocity_eq tm_stop_motor_eq ow_set_velocity_eq ow_stop_motor_eq
        set_vel_def logged_def get_axis_def split: axis_ref.splits)
  have b: "fst (tm_set_motor_velocity ax v w) = Inr () \<and>
      fst (tm_stop_motor ax w) = Inr () \<and>
      fst (tm_stop_all_motors l r w) = Inr () \<and>
      fst (tm_handle_motor_control k l r w) = Inr (k \<noteq> ''esc'') \<and>
      fst (ow_set_velocity ax v w) = Inr () \<and>
      fst (ow_stop_motor ax w) = Inr ()"
    by (simp add: tm_set_motor_velocity_eq tm_stop_motor_eq tm_stop_all_motors_eq tm_handle_fst
        ow_set_velocity_eq ow_stop_motor_eq)
  have c: "running w \<and> inp \<noteq> Some [CHR 0x03] \<and> inp \<noteq> Some [CHR 0x1B] \<and> inp \<noteq> Some ''esc'' \<longrightarrow>
      running (tm_key_monitor_thread l r [inp] w) \<and>
      monitor (tm_key_monitor_thread l r [inp] w) = monitor w"
  proof
    assume h: "running w \<and> inp \<noteq> Some [CHR 0x03] \<and> inp \<noteq> Some [CHR 0x1B] \<and> inp \<noteq> Some ''esc''"
    then have f: "fst (tm_key_monitor_iteration l r inp w) = Inr False"
      by (cases inp) (auto simp add: tm_iteration_fst tm_key_of_def)
    then have "tm_key_monitor_thread l r [inp] w = snd (tm_key_monitor_iteration l r inp w)"
      using h by (simp add: tm_thread_Cons del: tm_key_monitor_thread.simps(2))
    with h f show "running (tm_key_monitor_thread l r [inp] w) \<and>
        monitor (tm_key_monitor_thread l r [inp] w) = monitor w"
      by (simp add: tm_iteration_running tm_iteration_threads)
  qed
  have d: "str_lower u \<noteq> ''q'' \<longrightarrow> fst (ow_command ax u w) = Inr False"
    by (simp add: ow_command_fst)
  from a b c d show ?thesis by blast
qed

theorem actuator_failure_is_not_fatal_witness:
  "fault (get_axis Axis0 (tm_started broken_axis broken_axis cooked)) =
     Some ''device disconnected'' \<and>
   running (tm_started broken_axis broken_axis cooked) \<and>
   str_lower ''1'' \<noteq> ''q'' \<and>
   tm_set_motor_velocity Axis0 1 (tm_started broken_axis broken_axis cooked) =
     (Inr (), (tm_started broken_axis broken_axis cooked)
        \<lparr>trace := trace (tm_started broken_axis broken_axis cooked) @
           [InputVel Axis0 1, Print (''Failed to set velocity: '' @ ''device disconnected'')]\<rparr>) \<and>
   ow_stop_motor Axis0 (tm_started broken_axis broken_axis cooked) =
     (Inr (), (tm_started broken_axis broken_axis cooked)
        \<lparr>trace := trace (tm_started broken_axis broken_axis cooked) @
           [Print ''Stopping motor...'', InputVel Axis0 0,
            Print (''Failed to set velocity: '' @ ''device disconnected'')]\<rparr>) \<and>
   running (tm_key_monitor_thread Axis0 Axis1 [Some ''w'']
     (tm_started broken_axis broken_axis cooked)) \<and>
   monitor (tm_key_monitor_thread Axis0 Axis1 [Some ''w'']
     (tm_started broken_axis broken_axis cooked)) =
     monitor (tm_started broken_axis broken_axis cooked) \<and>
   fst (ow_command Axis0 ''1'' (tm_started broken_axis broken_axis cooked)) = Inr False"
proof -
  have h1: "fault (get_axis Axis0 (tm_started broken_axis broken_axis cooked)) =
      Some ''device disconnected''"
    by (simp add: world_eval)
  have h2: "running (tm_started broken_axis broken_axis cooked)"
    by (simp add: world_eval)
  have h3: "str_lower ''1'' \<noteq> ''q''" by (simp add: str_lower_digits)
  have h4: "Some ''w'' \<noteq> Some [CHR 0x03] \<and> Some ''w'' \<noteq> Some [CHR 0x1B] \<and>
      Some ''w'' \<noteq> Some ''esc''" by simp
  from h1 h2 h3 h4 actuator_failure_is_not_fatal
    [of Axis0 "tm_started broken_axis broken_axis cooked" "''device disconnected''" 1
        Axis0 Axis1 "''w''" "Some ''w''" "''1''"]
  show ?thesis by blast
qed

subsection \<open>Quit\<close>

text \<open>
  Claim C3 fails as stated: in the two-motor script the dispatcher, given the quit key
  \<open>'esc'\<close> while both motors run forward, returns \<open>False\<close> (stop) and issues no
  command at all; both set-points are still +1 when it returns.
\<close>

theorem escape_dispatch_issues_no_stop:
  "fst (tm_handle_motor_control ''esc'' LEFT_MOTOR_INDEX RIGHT_MOTOR_INDEX (tm_holding ''w'')) =
     Inr False \<and>
   commands (emitted (tm_holding ''w'')
     (snd (tm_handle_motor_control ''esc'' LEFT_MOTOR_INDEX RIGHT_MOTOR_INDEX
        (tm_holding ''w'')))) = [] \<and>
   InputVel LEFT_MOTOR_INDEX 0 \<notin> set (emitted (tm_holding ''w'')
     (snd (tm_handle_motor_control ''esc'' LEFT_MOTOR_INDEX RIGHT_MOTOR_INDEX
        (tm_holding ''w'')))) \<and>
   input_vel (get_axis LEFT_MOTOR_INDEX
     (snd (tm_handle_motor_control ''esc'' LEFT_MOTOR_INDEX RIGHT_MOTOR_INDEX
        (tm_holding ''w'')))) = 1 \<and>
   input_vel (get_axis RIGHT_MOTOR_INDEX
     (snd (tm_handle_motor_control ''esc'' LEFT_MOTOR_INDEX RIGHT_MOTOR_INDEX
        (tm_holding ''w'')))) = 1"
  by (simp add: tm_handle_keys emitted_def tm_holding_eq tm_key_of_def world_eval)

text \<open>
  Claim C3 as amended. Two-motor script: the dispatcher returns stop exactly for
  \<open>'esc'\<close> and continue for every other key, and for \<open>'esc'\<close> it only prints; the stop
  of both axes comes from the main thread, whose next poll after the monitor has
  cleared \<open>running\<close> and returned stops left and right and ends the process.
  Key-control script (no actuators): a newly sampled key clears \<open>running\<close> exactly
  when its lower case is \<open>'q'\<close>. One-wheel script: a line whose lower case is \<open>'q'\<close>
  issues the stop (velocity 0) and leaves the loop; every other line stays in the loop.
\<close>

theorem quit_dispatch:
  "fst (tm_handle_motor_control key l r w) = Inr (key \<noteq> ''esc'') \<and>
   tm_handle_motor_control ''esc'' l r w =
     (Inr False, w\<lparr>trace := trace w @ [Print ''Command: Quit program'']\<rparr>) \<and>
   (running w \<and> monitor w = Alive \<and> mainst w = Waiting \<and> current_key w \<noteq> Some ''esc'' \<longrightarrow>
      monitor (tm_run [Sample (Some [CHR 0x1B])] w) = Returned \<and>
      running (tm_run [Sample (Some [CHR 0x1B])] w) = False \<and>
      commands (emitted w (tm_run [Sample (Some [CHR 0x1B])] w)) = [] \<and>
      commands (emitted w (tm_run [Sample (Some [CHR 0x1B]), MainPoll] w)) =
        [InputVel LEFT_MOTOR_INDEX 0, InputVel RIGHT_MOTOR_INDEX 0] \<and>
      mainst (tm_run [Sample (Some [CHR 0x1B]), MainPoll] w) = Exited) \<and>
   (current_key w \<noteq> Some k \<longrightarrow>
      running (snd (kc_key_monitor_body (Some k) w)) = (running w \<and> str_lower k \<noteq> ''q'')) \<and>
   (str_lower u = ''q'' \<longrightarrow>
      fst (ow_command ax u w) = Inr True \<and>
      commands (emitted w (snd (ow_command ax u w))) = [InputVel ax 0]) \<and>
   (str_lower u \<noteq> ''q'' \<longrightarrow> fst (ow_command ax u w) = Inr False)"
proof -
  have a: "fst (tm_handle_motor_control key l r w) = Inr (key \<noteq> ''esc'') \<and>
      tm_handle_motor_control ''esc'' l r w =
        (Inr False, w\<lparr>trace := trace w @ [Print ''Command: Quit program'']\<rparr>)"
    by (simp add: tm_handle_fst tm_handle_keys logged_def)
  have b: "running w \<and> monitor w = Alive \<and> mainst w = Waiting \<and> current_key w \<noteq> Some ''esc'' \<longrightarrow>
      monitor (tm_run [Sample (Some [CHR 0x1B])] w) = Returned \<and>
      running (tm_run [Sample (Some [CHR 0x1B])] w) = False \<and>
      commands (emitted w (tm_run [Sample (Some [CHR 0x1B])] w)) = [] \<and>
      commands (emitted w (tm_run [Sample (Some [CHR 0x1B]), MainPoll] w)) =
        [InputVel LEFT_MOTOR_INDEX 0, InputVel RIGHT_MOTOR_INDEX 0] \<and>
      mainst (tm_run [Sample (Some [CHR 0x1B]), MainPoll] w) = Exited"
    by (simp add: tm_step_def tm_iteration_eq tm_key_of_def tm_body_pressed tm_handle_keys
        tm_main_poll_eq emitted_def)
  have c: "current_key w \<noteq> Some k \<longrightarrow>
      running (snd (kc_key_monitor_body (Some k) w)) = (running w \<and> str_lower k \<noteq> ''q'')"
    using str_lower_digits by (auto simp add: kc_body_pressed)
  have d: "str_lower u = ''q'' \<longrightarrow>
      fst (ow_command ax u w) = Inr True \<and>
      commands (emitted w (snd (ow_command ax u w))) = [InputVel ax 0]"
    by (simp add: ow_command_quit ow_set_velocity_eq emitted_def split: option.splits)
  have e: "str_lower u \<noteq> ''q'' \<longrightarrow> fst (ow_command ax u w) = Inr False"
    by (simp add: ow_command_fst)
  from a b c d e show ?thesis by blast
qed

theorem quit_dispatch_witness:
  "running (tm_holding ''w'') \<and> monitor (tm_holding ''w'') = Alive \<and>
   mainst (tm_holding ''w'') = Waiting \<and> current_key (tm_holding ''w'') \<noteq> Some ''esc'' \<and>
   current_key (kc_started cooked) \<noteq> Some ''Q'' \<and> str_lower ''Q'' = ''q'' \<and>
   str_lower ''1'' \<noteq> ''q'' \<and>
   monitor (tm_run [Sample (Some [CHR 0x1B])] (tm_holding ''w'')) = Returned \<and>
   commands (emitted (tm_holding ''w'')
     (tm_run [Sample (Some [CHR 0x1B]), MainPoll] (tm_holding ''w''))) =
     [InputVel LEFT_MOTOR_INDEX 0, InputVel RIGHT_MOTOR_INDEX 0] \<and>
   mainst (tm_run [Sample (Some [CHR 0x1B]), MainPoll] (tm_holding ''w'')) = Exited \<and>
   running (snd (kc_key_monitor_body (Some ''Q'') (kc_started cooked))) = False \<and>
   fst (ow_command MOTOR_INDEX ''Q'' (ow_started idle_axis)) = Inr True \<and>
   commands (emitted (ow_started idle_axis)
     (snd (ow_command MOTOR_INDEX ''Q'' (ow_started idle_axis)))) = [InputVel MOTOR_INDEX 0] \<and>
   fst (ow_command MOTOR_INDEX ''1'' (ow_started idle_axis)) = Inr False"
proof -
  have h1: "running (tm_holding ''w'') \<and> monitor (tm_holding ''w'') = Alive \<and>
      mainst (tm_holding ''w'') = Waiting \<and> current_key (tm_holding ''w'') \<noteq> Some ''esc''"
    by (simp add: tm_holding_facts)
  have h2: "current_key (kc_started cooked) \<noteq> Some ''Q''" by (simp add: kc_started_def)
  have h3: "str_lower ''Q'' = ''q''" "str_lower ''1'' \<noteq> ''q''" by (simp_all add: str_lower_digits)
  from h1 h3 quit_dispatch [of "''esc''" Axis0 Axis1 "tm_holding ''w''" "''Q''" "''Q''" MOTOR_INDEX]
  have t: "monitor (tm_run [Sample (Some [CHR 0x1B])] (tm_holding ''w'')) = Returned \<and>
      commands (emitted (tm_holding ''w'')
        (tm_run [Sample (Some [CHR 0x1B]), MainPoll] (tm_holding ''w''))) =
        [InputVel LEFT_MOTOR_INDEX 0, InputVel RIGHT_MOTOR_INDEX 0] \<and>
      mainst (tm_run [Sample (Some [CHR 0x1B]), MainPoll] (tm_holding ''w'')) = Exited"
    by blast
  from h2 h3 quit_dispatch [of "''esc''" Axis0 Axis1 "kc_started cooked" "''Q''" "''Q''" MOTOR_INDEX]
  have k: "running (snd (kc_key_monitor_body (Some ''Q'') (kc_started cooked))) = False"
    by blast
  from h3 quit_dispatch [of "''esc''" Axis0 Axis1 "ow_started idle_axis" "''Q''" "''Q''" MOTOR_INDEX]
  have q: "fst (ow_command MOTOR_INDEX ''Q'' (ow_started idle_axis)) = Inr True \<and>
      commands (emitted (ow_started idle_axis)
        (snd (ow_command MOTOR_INDEX ''Q'' (ow_started idle_axis)))) = [InputVel MOTOR_INDEX 0]"
    by blast
  from h3 quit_dispatch [of "''esc''" Axis0 Axis1 "ow_started idle_axis" "''Q''" "''1''" MOTOR_INDEX]
  have o: "fst (ow_command MOTOR_INDEX ''1'' (ow_started idle_axis)) = Inr False"
    by blast
  from h1 h2 h3 t k q o show ?thesis by blast
qed

subsection \<open>Holds, presses and releases\<close>

lemma tm_thread_hold_trace:
  "trace (tm_key_monitor_thread l r (Some s # replicate n (Some s)) w) =
   trace (tm_key_monitor_thread l r [Some s] w)"
proof (cases "running w")
  case False
  then show ?thesis by simp
next
  case True
  let ?it = "tm_key_monitor_iteration l r (Some s) w"
  show ?thesis
  proof (cases "fst ?it = Inr False")
    case False
    with True show ?thesis
      by (simp add: tm_thread_Cons del: tm_key_monitor_thread.simps(2) split: sum.splits)
  next
    case f: True
    then have ns: "s \<noteq> [CHR 0x03]"
      by (auto simp add: tm_iteration_fst split: if_splits)
    from f True have r1: "running (snd ?it)"
      by (simp add: tm_iteration_running)
    have ck: "current_key (snd ?it) = Some (tm_key_of s)"
      using tm_iteration_current_key [OF f] by simp
    from tm_thread_idle [OF r1 ck ns, of l r n "[]"] obtain calls where
      "tm_key_monitor_thread l r (replicate n (Some s)) (snd ?it) = (snd ?it)\<lparr>tty_calls := calls\<rparr>"
      by auto
    with True f show ?thesis
      by (simp add: tm_thread_Cons del: tm_key_monitor_thread.simps(2))
  qed
qed

lemma kc_thread_hold_trace:
  "trace (kc_key_monitor_thread (Some s # replicate n (Some s)) w) =
   trace (kc_key_monitor_thread [Some s] w)"
proof (cases "running w")
  case False
  then show ?thesis by simp
next
  case True
  let ?it = "kc_key_monitor_iteration (Some s) w"
  show ?thesis
  proof (cases "s = [CHR 0x03]")
    case True
    with \<open>running w\<close> show ?thesis
      by (simp add: kc_thread_Cons kc_iteration_fst del: kc_key_monitor_thread.simps(2))
  next
    case ns: False
    then have f: "fst ?it = Inr ()" by (simp add: kc_iteration_fst)
    from ns have ck: "current_key (snd ?it) = Some s"
      using kc_iteration_facts [of "Some s" w] by simp
    have "trace (kc_key_monitor_thread (replicate n (Some s)) (snd ?it)) = trace (snd ?it)"
    proof (cases "running (snd ?it)")
      case False
      then show ?thesis by (cases n) simp_all
    next
      case r1: True
      from kc_thread_idle [OF r1 ck ns, of n "[]"] show ?thesis by auto
    qed
    with True f show ?thesis
      by (simp add: kc_thread_Cons del: kc_key_monitor_thread.simps(2))
  qed
qed

lemma kc_holding_facts:
  "running (kc_holding ''w'')"
  "current_key (kc_holding ''w'') = Some ''w''"
proof -
  have "str_lower ''w'' \<noteq> ''q''" by code_simp
  then show "running (kc_holding ''w'')" "current_key (kc_holding ''w'') = Some ''w''"
    by (simp_all add: kc_holding_def kc_iteration_eq kc_body_pressed kc_started_def)
qed

text \<open>
  Claim C5. In both sampling scripts: when the sampled key equals the held key the
  locked block changes nothing and emits nothing; the held key changes only in a turn
  whose sampled key differs from it; a turn that samples nothing leaves no key held.
  Hence over sequences: sampling the same symbol \<open>n\<close> more times in a row adds
  nothing to the trace of the first sampling, so the press and its command occur at
  most once in an unbroken hold.
\<close>

theorem pressed_once_per_hold:
  "(current_key w = Some k \<longrightarrow> tm_key_monitor_body l r (Some k) w = (Inr False, w)) \<and>
   (current_key w = Some k \<longrightarrow> kc_key_monitor_body (Some k) w = (Inr (), w)) \<and>
   (current_key (snd (tm_key_monitor_body l r key w)) \<noteq> current_key w \<longrightarrow>
      key \<noteq> current_key w) \<and>
   (current_key (snd (kc_key_monitor_body key w)) \<noteq> current_key w \<longrightarrow>
      key \<noteq> current_key w) \<and>
   current_key (snd (tm_key_monitor_body l r None w)) = None \<and>
   current_key (snd (kc_key_monitor_body None w)) = None \<and>
   current_key (snd (tm_key_monitor_iteration l r None w)) = None \<and>
   current_key (snd (kc_key_monitor_iteration None w)) = None \<and>
   emitted w (tm_key_monitor_thread l r (Some s # replicate n (Some s)) w) =
     emitted w (tm_key_monitor_thread l r [Some s] w) \<and>
   emitted w (kc_key_monitor_thread (Some s # replicate n (Some s)) w) =
     emitted w (kc_key_monitor_thread [Some s] w)"
proof -
  have a: "current_key w = Some k \<longrightarrow> tm_key_monitor_body l r (Some k) w = (Inr False, w)"
    by (simp add: tm_body_held)
  have b: "current_key w = Some k \<longrightarrow> kc_key_monitor_body (Some k) w = (Inr (), w)"
    by (simp add: kc_body_held)
  have c: "current_key (snd (tm_key_monitor_body l r key w)) \<noteq> current_key w \<longrightarrow>
      key \<noteq> current_key w"
    by (simp add: tm_body_current_key)
  have d: "current_key (snd (kc_key_monitor_body key w)) \<noteq> current_key w \<longrightarrow>
      key \<noteq> current_key w"
    using kc_body_facts [of key w] by simp
  have e: "current_key (snd (tm_key_monitor_body l r None w)) = None \<and>
      current_key (snd (kc_key_monitor_body None w)) = None \<and>
      current_key (snd (tm_key_monitor_iteration l r None w)) = None \<and>
      current_key (snd (kc_key_monitor_iteration None w)) = None"
    using kc_body_facts [of None w] kc_iteration_facts [of None w]
    by (simp add: tm_body_current_key tm_iteration_eq)
  have f: "emitted w (tm_key_monitor_thread l r (Some s # replicate n (Some s)) w) =
      emitted w (tm_key_monitor_thread l r [Some s] w)"
    by (simp only: emitted_def tm_thread_hold_trace)
  have g: "emitted w (kc_key_monitor_thread (Some s # replicate n (Some s)) w) =
      emitted w (kc_key_monitor_thread [Some s] w)"
    by (simp only: emitted_def kc_thread_hold_trace)
  from a b c d e f g show ?thesis by blast
qed

theorem pressed_once_per_hold_witness:
  "current_key (tm_holding ''w'') = Some ''w'' \<and>
   current_key (kc_holding ''w'') = Some ''w'' \<and>
   tm_key_monitor_body Axis0 Axis1 (Some ''w'') (tm_holding ''w'') = (Inr False, tm_holding ''w'') \<and>
   kc_key_monitor_body (Some ''w'') (kc_holding ''w'') = (Inr (), kc_holding ''w'') \<and>
   current_key (snd (tm_key_monitor_body Axis0 Axis1 None (tm_holding ''w''))) \<noteq>
     current_key (tm_holding ''w'') \<and>
   current_key (snd (kc_key_monitor_body None (kc_holding ''w''))) \<noteq>
     current_key (kc_holding ''w'') \<and>
   None \<noteq> current_key (tm_holding ''w'') \<and>
   None \<noteq> current_key (kc_holding ''w'')"
proof -
  have h: "current_key (tm_holding ''w'') = Some ''w''" by (simp add: tm_holding_facts)
  have g: "current_key (kc_holding ''w'') = Some ''w''" by (simp add: kc_holding_facts)
  note t = pressed_once_per_hold [of "tm_holding ''w''" "''w''" Axis0 Axis1 None "''w''" 2]
  note k = pressed_once_per_hold [of "kc_holding ''w''" "''w''" Axis0 Axis1 None "''w''" 2]
  from h t have tn: "current_key (snd (tm_key_monitor_body Axis0 Axis1 None (tm_holding ''w''))) \<noteq>
      current_key (tm_holding ''w'')"
    by simp
  from g k have kn: "current_key (snd (kc_key_monitor_body None (kc_holding ''w''))) \<noteq>
      current_key (kc_holding ''w'')"
    by simp
  from h g t k tn kn show ?thesis by simp
qed

subsection \<open>Keys outside the table\<close>

text \<open>
  Claim C4. A sampled symbol outside the key table. Two-motor script: the dispatcher
  only prints \<open>Command: Unknown key\<close> and continues, and the locked block of the
  monitor does no more than that and record the symbol as held, so no actuator
  command is issued, whatever key was held. Key-control script (its motor actions
  are console lines): for a symbol other than \<open>'1'\<close>, \<open>'2'\<close> and the quit key that
  is not already the held one, the locked block issues the stop, the line
  \<open>ACTION: Stopping (other key pressed)\<close>, and nothing else; a whole hold of such a
  symbol issues exactly that one stop.
\<close>

theorem key_outside_table:
  "(k \<notin> set (map fst tm_key_name_table) \<longrightarrow>
      tm_handle_motor_control k l r w =
        (Inr True, w\<lparr>trace := trace w @ [Print ''Command: Unknown key'']\<rparr>)) \<and>
   (k \<notin> set (map fst tm_key_name_table) \<and> current_key w \<noteq> Some k \<longrightarrow>
      tm_key_monitor_body l r (Some k) w =
        (Inr False,
         w\<lparr>current_key := Some k, trace := trace w @ [Print ''Command: Unknown key'']\<rparr>)) \<and>
   (k \<notin> set (map fst tm_key_name_table) \<longrightarrow>
      commands (emitted w (snd (tm_key_monitor_body l r (Some k) w))) = [] \<and>
      axis0 (snd (tm_key_monitor_body l r (Some k) w)) = axis0 w \<and>
      axis1 (snd (tm_key_monitor_body l r (Some k) w)) = axis1 w) \<and>
   (k \<noteq> ''1'' \<and> k \<noteq> ''2'' \<and> str_lower k \<noteq> ''q'' \<and> current_key w \<noteq> Some k \<longrightarrow>
      kc_key_monitor_body (Some k) w =
        (Inr (),
         w\<lparr>current_key := Some k,
           trace := trace w @ [Print ''ACTION: Stopping (other key pressed)'']\<rparr>)) \<and>
   (k \<noteq> ''1'' \<and> k \<noteq> ''2'' \<and> str_lower k \<noteq> ''q'' \<and> k \<noteq> [CHR 0x03] \<and>
    current_key w \<noteq> Some k \<and> running w \<longrightarrow>
      emitted w (kc_key_monitor_thread (Some k # replicate n (Some k)) w) =
        [Print ''ACTION: Stopping (other key pressed)''])"
proof -
  have a: "k \<notin> set (map fst tm_key_name_table) \<longrightarrow>
      tm_handle_motor_control k l r w =
        (Inr True, w\<lparr>trace := trace w @ [Print ''Command: Unknown key'']\<rparr>)"
    by (simp add: tm_handle_unknown logged_def)
  have b: "k \<notin> set (map fst tm_key_name_table) \<and> current_key w \<noteq> Some k \<longrightarrow>
      tm_key_monitor_body l r (Some k) w =
        (Inr False,
         w\<lparr>current_key := Some k, trace := trace w @ [Print ''Command: Unknown key'']\<rparr>)"
  proof
    assume h: "k \<notin> set (map fst tm_key_name_table) \<and> current_key w \<noteq> Some k"
    then have "k \<noteq> ''esc''" by (auto simp add: tm_key_name_table_def)
    with h show "tm_key_monitor_body l r (Some k) w =
        (Inr False,
         w\<lparr>current_key := Some k, trace := trace w @ [Print ''Command: Unknown key'']\<rparr>)"
      by (simp add: tm_body_pressed tm_handle_unknown logged_def)
  qed
  have c: "k \<notin> set (map fst tm_key_name_table) \<longrightarrow>
      commands (emitted w (snd (tm_key_monitor_body l r (Some k) w))) = [] \<and>
      axis0 (snd (tm_key_monitor_body l r (Some k) w)) = axis0 w \<and>
      axis1 (snd (tm_key_monitor_body l r (Some k) w)) = axis1 w"
  proof
    assume h: "k \<notin> set (map fst tm_key_name_table)"
    show "commands (emitted w (snd (tm_key_monitor_body l r (Some k) w))) = [] \<and>
      axis0 (snd (tm_key_monitor_body l r (Some k) w)) = axis0 w \<and>
      axis1 (snd (tm_key_monitor_body l r (Some k) w)) = axis1 w"
    proof (cases "current_key w = Some k")
      case True
      then show ?thesis by (simp add: tm_body_held emitted_def)
    next
      case False
      with h b show ?thesis by (simp add: emitted_def)
    qed
  qed
  have d: "k \<noteq> ''1'' \<and> k \<noteq> ''2'' \<and> str_lower k \<noteq> ''q'' \<and> current_key w \<noteq> Some k \<longrightarrow>
      kc_key_monitor_body (Some k) w =
        (Inr (),
         w\<lparr>current_key := Some k,
           trace := trace w @ [Print ''ACTION: Stopping (other key pressed)'']\<rparr>)"
    by (simp add: kc_body_pressed logged_def)
  have e: "k \<noteq> ''1'' \<and> k \<noteq> ''2'' \<and> str_lower k \<noteq> ''q'' \<and> k \<noteq> [CHR 0x03] \<and>
      current_key w \<noteq> Some k \<and> running w \<longrightarrow>
      emitted w (kc_key_monitor_thread (Some k # replicate n (Some k)) w) =
        [Print ''ACTION: Stopping (other key pressed)'']"
  proof
    assume h: "k \<noteq> ''1'' \<and> k \<noteq> ''2'' \<and> str_lower k \<noteq> ''q'' \<and> k \<noteq> [CHR 0x03] \<and>
      current_key w \<noteq> Some k \<and> running w"
    then have "trace (kc_key_monitor_thread [Some k] w) =
        trace w @ [Print ''ACTION: Stopping (other key pressed)'']"
      by (simp add: kc_iteration_eq kc_body_pressed)
    then have "trace (kc_key_monitor_thread (Some k # replicate n (Some k)) w) =
        trace w @ [Print ''ACTION: Stopping (other key pressed)'']"
      by (simp only: kc_thread_hold_trace)
    then show "emitted w (kc_key_monitor_thread (Some k # replicate n (Some k)) w) =
        [Print ''ACTION: Stopping (other key pressed)'']"
      by (rule emitted_append)
  qed
  from a b c d e show ?thesis by blast
qed

theorem key_outside_table_witness:
  "''z'' \<notin> set (map fst tm_key_name_table) \<and>
   current_key (tm_holding ''w'') \<noteq> Some ''z'' \<and>
   current_key (kc_holding ''w'') \<noteq> Some ''z'' \<and>
   running (kc_holding ''w'') \<and>
   str_lower ''z'' \<noteq> ''q'' \<and>
   tm_handle_motor_control ''z'' Axis0 Axis1 (tm_holding ''w'') =
     (Inr True, (tm_holding ''w'')
        \<lparr>trace := trace (tm_holding ''w'') @ [Print ''Command: Unknown key'']\<rparr>) \<and>
   tm_key_monitor_body Axis0 Axis1 (Some ''z'') (tm_holding ''w'') =
     (Inr False, (tm_holding ''w'')
        \<lparr>current_key := Some ''z'',
          trace := trace (tm_holding ''w'') @ [Print ''Command: Unknown key'']\<rparr>) \<and>
   commands (emitted (tm_holding ''w'')
     (snd (tm_key_monitor_body Axis0 Axis1 (Some ''z'') (tm_holding ''w'')))) = [] \<and>
   kc_key_monitor_body (Some ''z'') (kc_holding ''w'') =
     (Inr (), (kc_holding ''w'')
        \<lparr>current_key := Some ''z'',
          trace := trace (kc_holding ''w'') @
            [Print ''ACTION: Stopping (other key pressed)'']\<rparr>) \<and>
   emitted (kc_holding ''w'')
     (kc_key_monitor_thread (Some ''z'' # replicate 2 (Some ''z'')) (kc_holding ''w'')) =
     [Print ''ACTION: Stopping (other key pressed)'']"
proof -
  have h1: "''z'' \<notin> set (map fst tm_key_name_table)" by (simp add: tm_key_name_table_def)
  have h2: "current_key (tm_holding ''w'') \<noteq> Some ''z''" by (simp add: tm_holding_facts)
  have h3: "current_key (kc_holding ''w'') \<noteq> Some ''z''" "running (kc_holding ''w'')"
    by (simp_all add: kc_holding_facts)
  have h4: "str_lower ''z'' \<noteq> ''q''" by (simp add: str_lower_digits)
  have h5: "''z'' \<noteq> ''1'' \<and> ''z'' \<noteq> ''2'' \<and> ''z'' \<noteq> [CHR 0x03]" by simp
  from h1 h2 key_outside_table [of "''z''" Axis0 Axis1 "tm_holding ''w''" 2]
  have t: "tm_handle_motor_control ''z'' Axis0 Axis1 (tm_holding ''w'') =
        (Inr True, (tm_holding ''w'')
           \<lparr>trace := trace (tm_holding ''w'') @ [Print ''Command: Unknown key'']\<rparr>) \<and>
      tm_key_monitor_body Axis0 Axis1 (Some ''z'') (tm_holding ''w'') =
        (Inr False, (tm_holding ''w'')
           \<lparr>current_key := Some ''z'',
             trace := trace (tm_holding ''w'') @ [Print ''Command: Unknown key'']\<rparr>) \<and>
      commands (emitted (tm_holding ''w'')
        (snd (tm_key_monitor_body Axis0 Axis1 (Some ''z'') (tm_holding ''w'')))) = []"
    by blast
  from h3 h4 h5 key_outside_table [of "''z''" Axis0 Axis1 "kc_holding ''w''" 2]
  have k: "kc_key_monitor_body (Some ''z'') (kc_holding ''w'') =
        (Inr (), (kc_holding ''w'')
           \<lparr>current_key := Some ''z'',
             trace := trace (kc_holding ''w'') @
               [Print ''ACTION: Stopping (other key pressed)'']\<rparr>) \<and>
      emitted (kc_holding ''w'')
        (kc_key_monitor_thread (Some ''z'' # replicate 2 (Some ''z'')) (kc_holding ''w'')) =
        [Print ''ACTION: Stopping (other key pressed)'']"
    by blast
  from h1 h2 h3 h4 t k show ?thesis by blast
qed

subsection \<open>Releases\<close>

lemma tm_thread_no_release:
  "None \<notin> set inps \<Longrightarrow>
   \<exists>zs. trace (tm_key_monitor_thread l r inps w) = trace w @ zs \<and>
        count_list zs tm_release_msg = 0"
proof (induction inps arbitrary: w)
  case Nil
  then show ?case by simp
next
  case (Cons inp inps)
  show ?case
  proof (cases "running w")
    case False
    then show ?thesis by simp
  next
    case True
    let ?w1 = "snd (tm_key_monitor_iteration l r inp w)"
    from Cons.prems have "inp \<noteq> None" by (cases inp) auto
    with tm_iteration_trace [of l r inp w] obtain xs where
      xs: "trace ?w1 = trace w @ xs" "count_list xs tm_release_msg = 0"
      by auto
    from Cons.prems have "None \<notin> set inps" by simp
    from Cons.IH [OF this, of ?w1] obtain zs where
      zs: "trace (tm_key_monitor_thread l r inps ?w1) = trace ?w1 @ zs"
        "count_list zs tm_release_msg = 0"
      by auto
    from True xs zs show ?thesis
      by (auto simp add: tm_thread_Cons simp del: tm_key_monitor_thread.simps(2)
          split: sum.splits)
  qed
qed

lemma kc_thread_no_release:
  "None \<notin> set inps \<Longrightarrow>
   \<exists>zs. trace (kc_key_monitor_thread inps w) = trace w @ zs \<and>
        count_list zs kc_release_msg = 0"
proof (induction inps arbitrary: w)
  case Nil
  then show ?case by simp
next
  case (Cons inp inps)
  show ?case
  proof (cases "running w")
    case False
    then show ?thesis by simp
  next
    case True
    let ?w1 = "snd (kc_key_monitor_iteration inp w)"
    from Cons.prems have "inp \<noteq> None" by (cases inp) auto
    with kc_iteration_trace [of inp w] obtain xs where
      xs: "trace ?w1 = trace w @ xs" "count_list xs kc_release_msg = 0"
      by auto
    from Cons.prems have "None \<notin> set inps" by simp
    from Cons.IH [OF this, of ?w1] obtain zs where
      zs: "trace (kc_key_monitor_thread inps ?w1) = trace ?w1 @ zs"
        "count_list zs kc_release_msg = 0"
      by auto
    from True xs zs show ?thesis
      by (auto simp add: kc_thread_Cons simp del: kc_key_monitor_thread.simps(2)
          split: sum.splits)
  qed
qed

lemma tm_hold_released:
  assumes run: "running w" and ns: "s \<noteq> [CHR 0x03]" and nq: "tm_key_of s \<noteq> ''esc''"
  shows "count_list
           (emitted w (tm_key_monitor_thread l r (Some s # replicate n (Some s) @ [None]) w))
           tm_release_msg = 1 \<and>
         current_key (tm_key_monitor_thread l r (Some s # replicate n (Some s) @ [None]) w) =
           None"
proof -
  let ?w1 = "snd (tm_key_monitor_iteration l r (Some s) w)"
  from ns nq have f1: "fst (tm_key_monitor_iteration l r (Some s) w) = Inr False"
    by (simp add: tm_iteration_fst)
  from tm_iteration_trace [of l r "Some s" w] obtain xs where
    xs: "trace ?w1 = trace w @ xs" "count_list xs tm_release_msg = 0"
    by auto
  from f1 run have r1: "running ?w1" by (simp add: tm_iteration_running)
  have ck1: "current_key ?w1 = Some (tm_key_of s)"
    using tm_iteration_current_key [OF f1] by simp
  from tm_thread_idle [OF r1 ck1 ns, of l r n "[None]"] obtain calls where
    idle: "tm_key_monitor_thread l r (replicate n (Some s) @ [None]) ?w1 =
      tm_key_monitor_thread l r [None] (?w1\<lparr>tty_calls := calls\<rparr>)"
    by auto
  let ?w2 = "?w1\<lparr>tty_calls := calls\<rparr>"
  let ?w3 = "snd (tm_key_monitor_iteration l r None ?w2)"
  have f3: "fst (tm_key_monitor_iteration l r None ?w2) = Inr False"
    by (simp add: tm_iteration_fst)
  from ck1 tm_iteration_trace [of l r None ?w2] obtain ys where
    ys: "trace ?w3 = trace ?w2 @ ys" "count_list ys tm_release_msg = 1"
    by auto
  have ck3: "current_key ?w3 = None"
    using tm_iteration_current_key [OF f3] by simp
  from r1 f3 have last: "tm_key_monitor_thread l r [None] ?w2 = ?w3"
    by (simp add: tm_thread_Cons del: tm_key_monitor_thread.simps(2))
  from run f1 have "tm_key_monitor_thread l r (Some s # replicate n (Some s) @ [None]) w =
      tm_key_monitor_thread l r (replicate n (Some s) @ [None]) ?w1"
    by (simp add: tm_thread_Cons del: tm_key_monitor_thread.simps(2))
  with idle last have all: "tm_key_monitor_thread l r (Some s # replicate n (Some s) @ [None]) w
      = ?w3"
    by simp
  from xs ys have "trace ?w3 = trace w @ xs @ ys" by simp
  then have "emitted w ?w3 = xs @ ys" by (rule emitted_append)
  with xs ys ck3 all show ?thesis by simp
qed

lemma kc_hold_released:
  assumes run: "running w" and s12: "s = ''1'' \<or> s = ''2''"
  shows "count_list
           (emitted w (kc_key_monitor_thread (Some s # replicate n (Some s) @ [None]) w))
           kc_release_msg = 1 \<and>
         current_key (kc_key_monitor_thread (Some s # replicate n (Some s) @ [None]) w) = None"
proof -
  let ?w1 = "snd (kc_key_monitor_iteration (Some s) w)"
  from s12 have ns: "s \<noteq> [CHR 0x03]" by auto
  then have f1: "fst (kc_key_monitor_iteration (Some s) w) = Inr ()"
    by (simp add: kc_iteration_fst)
  from kc_iteration_trace [of "Some s" w] obtain xs where
    xs: "trace ?w1 = trace w @ xs" "count_list xs kc_release_msg = 0"
    by auto
  from ns have ck1: "current_key ?w1 = Some s"
    using kc_iteration_facts [of "Some s" w] by simp
  from s12 run have r1: "running ?w1"
    by (cases "current_key w = Some s")
      (auto simp add: kc_iteration_eq kc_body_held kc_body_pressed)
  from kc_thread_idle [OF r1 ck1 ns, of n "[None]"] obtain calls where
    idle: "kc_key_monitor_thread (replicate n (Some s) @ [None]) ?w1 =
      kc_key_monitor_thread [None] (?w1\<lparr>tty_calls := calls\<rparr>)"
    by auto
  let ?w2 = "?w1\<lparr>tty_calls := calls\<rparr>"
  let ?w3 = "snd (kc_key_monitor_iteration None ?w2)"
  have f3: "fst (kc_key_monitor_iteration None ?w2) = Inr ()"
    by (simp add: kc_iteration_fst)
  from ck1 s12 kc_iteration_trace [of None ?w2] obtain ys where
    ys: "trace ?w3 = trace ?w2 @ ys" "count_list ys kc_release_msg = 1"
    by auto
  have ck3: "current_key ?w3 = None"
    using kc_iteration_facts [of None ?w2] by simp
  from r1 f3 have last: "kc_key_monitor_thread [None] ?w2 = ?w3"
    by (simp add: kc_thread_Cons del: kc_key_monitor_thread.simps(2))
  from run f1 have "kc_key_monitor_thread (Some s # replicate n (Some s) @ [None]) w =
      kc_key_monitor_thread (replicate n (Some s) @ [None]) ?w1"
    by (simp add: kc_thread_Cons del: kc_key_monitor_thread.simps(2))
  with idle last have all: "kc_key_monitor_thread (Some s # replicate n (Some s) @ [None]) w
      = ?w3"
    by simp
  from xs ys have "trace ?w3 = trace w @ xs @ ys" by simp
  then have "emitted w ?w3 = xs @ ys" by (rule emitted_append)
  with xs ys ck3 all show ?thesis by simp
qed

text \<open>
  Claim C2 fails as stated: in the two-motor script, after \<open>'a'\<close> and then \<open>'d'\<close> are
  sampled the hold of \<open>'a'\<close> is over (the held key is \<open>'d'\<close>), and no release has
  been performed: the trace holds the four velocity writes of the two presses and no
  release message. When nothing is sampled next, the whole run of two holds has one
  release.
\<close>

theorem hold_ended_by_other_key_has_no_release:
  "current_key (tm_key_monitor_thread LEFT_MOTOR_INDEX RIGHT_MOTOR_INDEX [Some ''a'']
     (tm_started idle_axis idle_axis cooked)) = Some ''a'' \<and>
   current_key (tm_key_monitor_thread LEFT_MOTOR_INDEX RIGHT_MOTOR_INDEX [Some ''a'', Some ''d'']
     (tm_started idle_axis idle_axis cooked)) = Some ''d'' \<and>
   trace (tm_key_monitor_thread LEFT_MOTOR_INDEX RIGHT_MOTOR_INDEX [Some ''a'', Some ''d'']
     (tm_started idle_axis idle_axis cooked)) =
     [Print ''Command: Right motor forward'', InputVel Axis1 1, InputVel Axis0 0,
      Print ''Command: Left motor forward'', InputVel Axis0 1, InputVel Axis1 0] \<and>
   count_list
     (trace (tm_key_monitor_thread LEFT_MOTOR_INDEX RIGHT_MOTOR_INDEX [Some ''a'', Some ''d'']
        (tm_started idle_axis idle_axis cooked))) tm_release_msg = 0 \<and>
   count_list
     (trace (tm_key_monitor_thread LEFT_MOTOR_INDEX RIGHT_MOTOR_INDEX
        [Some ''a'', Some ''d'', None] (tm_started idle_axis idle_axis cooked)))
     tm_release_msg = 1"
  by (simp add: tm_iteration_eq tm_key_of_def tm_body_pressed tm_body_None tm_handle_keys
      tm_release_msg_def world_eval)

text \<open>
  Claim C2 as amended. Two-motor script: a sampling turn performs the release (the
  message, then velocity 0 to the left and the right axis) exactly when it samples
  nothing while a key is held, and performs it once; so a hold of a key other than
  Escape that is ended by such a turn gets exactly one release, at that turn, after
  which no key is held, and a run in which every turn samples a symbol - where holds
  are ended by other keys - has no release at all. Key-control script: the release
  action is printed exactly in the turns that sample nothing while \<open>'1'\<close> or \<open>'2'\<close>
  is held; a hold of \<open>'1'\<close> or \<open>'2'\<close> ended by such a turn gets exactly one, and a
  run without such a turn none.
\<close>

theorem release_per_hold:
  "count_list (emitted w (snd (tm_key_monitor_iteration l r inp w))) tm_release_msg =
     (if inp = None \<and> current_key w \<noteq> None then 1 else 0) \<and>
   (current_key w \<noteq> None \<longrightarrow>
      commands (emitted w (snd (tm_key_monitor_iteration l r None w))) =
        [InputVel l 0, InputVel r 0]) \<and>
   count_list (emitted w (snd (kc_key_monitor_iteration inp w))) kc_release_msg =
     (if inp = None \<and> (current_key w = Some ''1'' \<or> current_key w = Some ''2'')
      then 1 else 0) \<and>
   (running w \<and> s \<noteq> [CHR 0x03] \<and> tm_key_of s \<noteq> ''esc'' \<longrightarrow>
      count_list
        (emitted w (tm_key_monitor_thread l r (Some s # replicate n (Some s) @ [None]) w))
        tm_release_msg = 1 \<and>
      current_key (tm_key_monitor_thread l r (Some s # replicate n (Some s) @ [None]) w) =
        None) \<and>
   (running w \<and> (s = ''1'' \<or> s = ''2'') \<longrightarrow>
      count_list
        (emitted w (kc_key_monitor_thread (Some s # replicate n (Some s) @ [None]) w))
        kc_release_msg = 1 \<and>
      current_key (kc_key_monitor_thread (Some s # replicate n (Some s) @ [None]) w) = None) \<and>
   (None \<notin> set inps \<longrightarrow>
      count_list (emitted w (tm_key_monitor_thread l r inps w)) tm_release_msg = 0 \<and>
      count_list (emitted w (kc_key_monitor_thread inps w)) kc_release_msg = 0)"
proof -
  have a: "count_list (emitted w (snd (tm_key_monitor_iteration l r inp w))) tm_release_msg =
      (if inp = None \<and> current_key w \<noteq> None then 1 else 0)"
    using tm_iteration_trace [of l r inp w] by (auto simp add: emitted_def)
  have b: "current_key w \<noteq> None \<longrightarrow>
      commands (emitted w (snd (tm_key_monitor_iteration l r None w))) =
        [InputVel l 0, InputVel r 0]"
    by (simp add: tm_iteration_eq tm_body_None emitted_def)
  have c: "count_list (emitted w (snd (kc_key_monitor_iteration inp w))) kc_release_msg =
      (if inp = None \<and> (current_key w = Some ''1'' \<or> current_key w = Some ''2'')
       then 1 else 0)"
    using kc_iteration_trace [of inp w] by (auto simp add: emitted_def)
  have d: "running w \<and> s \<noteq> [CHR 0x03] \<and> tm_key_of s \<noteq> ''esc'' \<longrightarrow>
      count_list
        (emitted w (tm_key_monitor_thread l r (Some s # replicate n (Some s) @ [None]) w))
        tm_release_msg = 1 \<and>
      current_key (tm_key_monitor_thread l r (Some s # replicate n (Some s) @ [None]) w) =
        None"
  proof
    assume "running w \<and> s \<noteq> [CHR 0x03] \<and> tm_key_of s \<noteq> ''esc''"
    then have "running w" and "s \<noteq> [CHR 0x03]" and "tm_key_of s \<noteq> ''esc''" by simp_all
    then show "count_list
        (emitted w (tm_key_monitor_thread l r (Some s # replicate n (Some s) @ [None]) w))
        tm_release_msg = 1 \<and>
      current_key (tm_key_monitor_thread l r (Some s # replicate n (Some s) @ [None]) w) =
        None"
      by (rule tm_hold_released)
  qed
  have e: "running w \<and> (s = ''1'' \<or> s = ''2'') \<longrightarrow>
      count_list
        (emitted w (kc_key_monitor_thread (Some s # replicate n (Some s) @ [None]) w))
        kc_release_msg = 1 \<and>
      current_key (kc_key_monitor_thread (Some s # replicate n (Some s) @ [None]) w) = None"
  proof
    assume "running w \<and> (s = ''1'' \<or> s = ''2'')"
    then have "running w" and "s = ''1'' \<or> s = ''2''" by simp_all
    then show "count_list
        (emitted w (kc_key_monitor_thread (Some s # replicate n (Some s) @ [None]) w))
        kc_release_msg = 1 \<and>
      current_key (kc_key_monitor_thread (Some s # replicate n (Some s) @ [None]) w) = None"
      by (rule kc_hold_released)
  qed
  have f: "None \<notin> set inps \<longrightarrow>
      count_list (emitted w (tm_key_monitor_thread l r inps w)) tm_release_msg = 0 \<and>
      count_list (emitted w (kc_key_monitor_thread inps w)) kc_release_msg = 0"
    using tm_thread_no_release [of inps l r w] kc_thread_no_release [of inps w]
    by (auto simp add: emitted_def)
  from a b c d e f show ?thesis by blast
qed

theorem release_per_hold_witness:
  "current_key (tm_holding ''w'') \<noteq> None \<and> running (tm_holding ''w'') \<and>
   ''a'' \<noteq> [CHR 0x03] \<and> tm_key_of ''a'' \<noteq> ''esc'' \<and> running (kc_started cooked) \<and>
   None \<notin> set [Some ''a'', Some ''d''] \<and>
   commands (emitted (tm_holding ''w'')
     (snd (tm_key_monitor_iteration Axis0 Axis1 None (tm_holding ''w'')))) =
     [InputVel Axis0 0, InputVel Axis1 0] \<and>
   count_list (emitted (tm_holding ''w'')
     (tm_key_monitor_thread Axis0 Axis1 (Some ''a'' # replicate 2 (Some ''a'') @ [None])
        (tm_holding ''w''))) tm_release_msg = 1 \<and>
   current_key
     (tm_key_monitor_thread Axis0 Axis1 (Some ''a'' # replicate 2 (Some ''a'') @ [None])
        (tm_holding ''w'')) = None \<and>
   count_list (emitted (tm_holding ''w'')
     (tm_key_monitor_thread Axis0 Axis1 [Some ''a'', Some ''d''] (tm_holding ''w'')))
     tm_release_msg = 0 \<and>
   count_list (emitted (kc_started cooked)
     (kc_key_monitor_thread (Some ''1'' # replicate 2 (Some ''1'') @ [None])
        (kc_started cooked))) kc_release_msg = 1"
proof -
  have h1: "current_key (tm_holding ''w'') \<noteq> None \<and> running (tm_holding ''w'')"
    by (simp add: tm_holding_facts)
  have h2: "''a'' \<noteq> [CHR 0x03] \<and> tm_key_of ''a'' \<noteq> ''esc''"
    by (simp add: tm_key_of_def)
  have h3: "running (kc_started cooked)" by (simp add: kc_started_def)
  have h4: "None \<notin> set [Some ''a'', Some ''d'']" by simp
  from h1 h2 h4
    release_per_hold [of "tm_holding ''w''" Axis0 Axis1 None "''a''" 2 "[Some ''a'', Some ''d'']"]
  have t: "commands (emitted (tm_holding ''w'')
        (snd (tm_key_monitor_iteration Axis0 Axis1 None (tm_holding ''w'')))) =
        [InputVel Axis0 0, InputVel Axis1 0] \<and>
      count_list (emitted (tm_holding ''w'')
        (tm_key_monitor_thread Axis0 Axis1 (Some ''a'' # replicate 2 (Some ''a'') @ [None])
           (tm_holding ''w''))) tm_release_msg = 1 \<and>
      current_key
        (tm_key_monitor_thread Axis0 Axis1 (Some ''a'' # replicate 2 (Some ''a'') @ [None])
           (tm_holding ''w'')) = None \<and>
      count_list (emitted (tm_holding ''w'')
        (tm_key_monitor_thread Axis0 Axis1 [Some ''a'', Some ''d''] (tm_holding ''w'')))
        tm_release_msg = 0"
    by blast
  from h3
    release_per_hold [of "kc_started cooked" Axis0 Axis1 None "''1''" 2 "[Some ''a'', Some ''d'']"]
  have k: "count_list (emitted (kc_started cooked)
      (kc_key_monitor_thread (Some ''1'' # replicate 2 (Some ''1'') @ [None])
         (kc_started cooked))) kc_release_msg = 1"
    by blast
  from h1 h2 h3 h4 t k show ?thesis by blast
qed

subsection \<open>The sampler and the terminal mode\<close>

text \<open>
  Claim C6. For every call of \<open>getch_non_blocking\<close> (both scripts), whatever the
  terminal delivers, the terminal attributes after the call are those before it, and
  the call makes exactly these terminal calls: it reads the attributes, enters raw
  mode once, selects, reads a character when one is there, and restores the saved
  attributes once. The exits of the call are: \<open>None\<close> when nothing arrives in time,
  \<open>KeyboardInterrupt\<close> raised on the byte 0x03, and the character read otherwise
  (\<open>'esc'\<close> for the byte 0x1B in the two-motor script).
\<close>

theorem getch_non_blocking_restores_terminal:
  "tty_attrs (snd (kc_getch_non_blocking inp w)) = tty_attrs w \<and>
   tty_attrs (snd (tm_getch_non_blocking inp w)) = tty_attrs w \<and>
   tty_calls (snd (kc_getch_non_blocking inp w)) =
     tty_calls w @ [Tcgetattr, Setraw, Select] @ (if inp = None then [] else [Read])
       @ [Tcsetattr (tty_attrs w)] \<and>
   tty_calls (snd (tm_getch_non_blocking inp w)) =
     tty_calls w @ [Tcgetattr, Setraw, Select] @ (if inp = None then [] else [Read])
       @ [Tcsetattr (tty_attrs w)] \<and>
   fst (kc_getch_non_blocking inp w) =
     (case inp of None \<Rightarrow> Inr None
      | Some s \<Rightarrow> if s = [CHR 0x03] then Inl KeyboardInterrupt else Inr (Some s)) \<and>
   fst (tm_getch_non_blocking inp w) =
     (case inp of None \<Rightarrow> Inr None
      | Some s \<Rightarrow>
          if s = [CHR 0x03] then Inl KeyboardInterrupt
          else if s = [CHR 0x1B] then Inr (Some ''esc'') else Inr (Some s))"
  by (simp add: kc_getch_eq tm_getch_eq sampled_def tm_key_of_def split: option.splits)

end
